theory Spec2Isabelle
  imports Complex_Main
begin

section \<open>JavaScript numbers\<close>

text \<open>
  A JavaScript number is an IEEE 754 binary64 value. Every finite binary64 value is a
  rational number, so the engine's numbers are modelled as \<^typ>\<open>rat\<close>, and each arithmetic
  operation of the source is the exact rational operation followed by rounding to the
  nearest binary64 value, ties to even (\<open>fl\<close>). The significand has 53 bits; below
  \<open>2^-1022\<close> the spacing stays \<open>2^-1074\<close> (subnormal numbers). Results of magnitude
  \<open>2^1024\<close> and more (Infinity in JavaScript) are outside the model: the engine's numbers
  stay between \<open>-0.1\<close> and \<open>10\<close>.
\<close>

type_synonym number = rat

text \<open>\<open>binade r\<close> is the exponent \<open>e\<close> with \<open>2^e \<le> r < 2^(e+1)\<close>, for \<open>0 < r\<close>, cut off
  below at \<open>-1022\<close> (the exponent of the subnormal numbers) and above at \<open>1023\<close>.\<close>

fun binade_low :: "nat \<Rightarrow> rat \<Rightarrow> int" where
  "binade_low 0 r = 0"
| "binade_low (Suc n) r = (if 1 \<le> r then 0 else binade_low n (2 * r) - 1)"

fun binade_high :: "nat \<Rightarrow> rat \<Rightarrow> int" where
  "binade_high 0 r = 0"
| "binade_high (Suc n) r = (if r < 2 then 0 else binade_high n (r / 2) + 1)"

definition binade :: "rat \<Rightarrow> int" where
  "binade r = (if 1 \<le> r then binade_high 1023 r else binade_low 1022 r)"

definition pow2 :: "int \<Rightarrow> rat" where
  "pow2 e = (if 0 \<le> e then 2 ^ nat e else 1 / 2 ^ nat (- e))"

text \<open>The nearest integer, a tie going to the even one.\<close>

definition round_half_even :: "rat \<Rightarrow> int" where
  "round_half_even q =
     (if q - of_int \<lfloor>q\<rfloor> < 1 / 2 then \<lfloor>q\<rfloor>
      else if 1 / 2 < q - of_int \<lfloor>q\<rfloor> then \<lfloor>q\<rfloor> + 1
      else if even \<lfloor>q\<rfloor> then \<lfloor>q\<rfloor> else \<lfloor>q\<rfloor> + 1)"

text \<open>The multiple of the spacing \<open>u\<close> nearest to \<open>a\<close>.\<close>

definition round_to :: "rat \<Rightarrow> rat \<Rightarrow> rat" where
  "round_to u a = of_int (round_half_even (a / u)) * u"

definition fl :: "rat \<Rightarrow> number" where
  "fl r = (if r = 0 then 0 else sgn r * round_to (pow2 (binade \<bar>r\<bar> - 52)) \<bar>r\<bar>)"

definition js_sub :: "number \<Rightarrow> number \<Rightarrow> number" where
  "js_sub x y = fl (x - y)"

definition js_div :: "number \<Rightarrow> number \<Rightarrow> number" where
  "js_div x y = fl (x / y)"

section \<open>Configuration (config.js)\<close>

definition DURATION :: number where "DURATION = 10"
definition TIMER_INTERVAL :: number where "TIMER_INTERVAL = 100"
definition WARNING_THRESHOLD :: number where "WARNING_THRESHOLD = 6"
definition DANGER_THRESHOLD :: number where "DANGER_THRESHOLD = 3"
definition COUNTDOWN_START :: int where "COUNTDOWN_START = 3"
definition MIN_SCORE :: int where "MIN_SCORE = 1"
definition MAX_SCORE :: int where "MAX_SCORE = 1000"

datatype game_state = IDLE | COUNTDOWN | PLAYING | FINISHED

section \<open>The game engine and its timers (class GameEngine)\<close>

text \<open>
  The status strings \<open>'normal'\<close>, \<open>'warning'\<close> and \<open>'danger'\<close> of \<open>getTimerStatus\<close>.
\<close>

datatype timer_status = Normal | Warning | Danger

text \<open>The object handed to the \<open>onGameEnd\<close> handler.\<close>

record game_end_data =
  score :: int
  duration :: number
  timestamp :: int

text \<open>
  One constructor for each of the five handler slots: an event is a call of the handler
  with its argument.
\<close>

datatype event =
    StateChange game_state
  | TimerUpdate number timer_status
  | ClickCountUpdate int
  | CountdownTick int
  | GameEnd game_end_data

text \<open>
  The two closures the engine passes to \<open>setInterval\<close>. The countdown closure captures the
  local variable \<open>count\<close> of \<open>startCountdown\<close> and decrements it at each firing.
\<close>

datatype callback = CountdownCallback int | TimerCallback

text \<open>
  The state of a \<open>GameEngine\<close> object, followed by the part of the browser it runs in:
  the clock read by \<open>Date.now()\<close> (milliseconds), the schedules created by \<open>setInterval\<close>
  and not yet cleared (identifier and closure, in creation order), the next free timer
  identifier, and the calls made to registered handlers so far. A handler slot holds
  \<open>True\<close> when a function is registered and \<open>False\<close> when it is \<open>null\<close>. \<open>None\<close> is \<open>null\<close>.
  A handler only observes: it does not call the engine back while it runs, as the
  handlers that \<open>App\<close> registers do not.
\<close>

record world =
  state :: game_state
  clickCount :: int
  timeLeft :: number
  timerInterval :: "nat option"
  countdownInterval :: "nat option"
  gameStartTime :: "int option"
  onStateChange :: bool
  onTimerUpdate :: bool
  onClickCountUpdate :: bool
  onCountdownTick :: bool
  onGameEnd :: bool
  now :: int
  intervals :: "(nat \<times> callback) list"
  nextId :: nat
  emitted :: "event list"

text \<open>The constructor, in a browser whose clock shows \<open>t\<close>. Timer identifiers are positive.\<close>

definition GameEngine :: "int \<Rightarrow> world" where
  "GameEngine t =
     \<lparr>state = IDLE, clickCount = 0, timeLeft = DURATION,
      timerInterval = None, countdownInterval = None, gameStartTime = None,
      onStateChange = False, onTimerUpdate = False, onClickCountUpdate = False,
      onCountdownTick = False, onGameEnd = False,
      now = t, intervals = [], nextId = 1, emitted = []\<rparr>"

subsection \<open>Browser timers\<close>

definition setInterval :: "callback \<Rightarrow> world \<Rightarrow> nat \<times> world" where
  "setInterval cb w =
     (nextId w, w\<lparr>intervals := intervals w @ [(nextId w, cb)], nextId := Suc (nextId w)\<rparr>)"

text \<open>\<open>clearInterval\<close> of \<open>null\<close> or of an identifier that names no schedule does nothing.\<close>

definition clearInterval :: "nat option \<Rightarrow> world \<Rightarrow> world" where
  "clearInterval h w =
     (case h of
        None \<Rightarrow> w
      | Some i \<Rightarrow> w\<lparr>intervals := filter (\<lambda>(j, cb). j \<noteq> i) (intervals w)\<rparr>)"

text \<open>The test \<open>if (this.timerInterval)\<close>: \<open>null\<close> and \<open>0\<close> are falsy.\<close>

definition truthy :: "nat option \<Rightarrow> bool" where
  "truthy h = (case h of None \<Rightarrow> False | Some i \<Rightarrow> i \<noteq> 0)"

subsection \<open>Event emitters\<close>

definition emit :: "bool \<Rightarrow> event \<Rightarrow> world \<Rightarrow> world" where
  "emit handler e w = (if handler then w\<lparr>emitted := emitted w @ [e]\<rparr> else w)"

definition getTimerStatus :: "world \<Rightarrow> timer_status" where
  "getTimerStatus w =
     (if timeLeft w \<le> DANGER_THRESHOLD then Danger
      else if timeLeft w \<le> WARNING_THRESHOLD then Warning
      else Normal)"

definition emitStateChange :: "world \<Rightarrow> world" where
  "emitStateChange w = emit (onStateChange w) (StateChange (state w)) w"

definition emitTimerUpdate :: "world \<Rightarrow> world" where
  "emitTimerUpdate w = emit (onTimerUpdate w) (TimerUpdate (timeLeft w) (getTimerStatus w)) w"

definition emitClickCountUpdate :: "world \<Rightarrow> world" where
  "emitClickCountUpdate w = emit (onClickCountUpdate w) (ClickCountUpdate (clickCount w)) w"

definition emitCountdownTick :: "int \<Rightarrow> world \<Rightarrow> world" where
  "emitCountdownTick n w = emit (onCountdownTick w) (CountdownTick n) w"

subsection \<open>Engine methods\<close>

text \<open>
  Each method takes the engine in its browser and returns it after the call. The click
  count is a number that only ever holds a non-negative integer, on which \<open>++\<close> is exact
  below \<open>2^53\<close>; it is modelled as an integer. The warning that \<open>startCountdown\<close> writes
  to the console outside Idle is not modelled.
\<close>

definition endGame :: "world \<Rightarrow> world" where
  "endGame w =
     (if state w \<noteq> PLAYING then w
      else
        let w1 = (if truthy (timerInterval w)
                  then (clearInterval (timerInterval w) w)\<lparr>timerInterval := None\<rparr>
                  else w);
            w2 = w1\<lparr>state := FINISHED, timeLeft := 0\<rparr>;
            w3 = emitTimerUpdate (emitStateChange w2)
        in emit (onGameEnd w3)
             (GameEnd \<lparr>score = clickCount w3, duration = DURATION, timestamp = now w3\<rparr>) w3)"

text \<open>The body of the closure \<open>startGameplay\<close> passes to \<open>setInterval\<close>.\<close>

definition timerTick :: "world \<Rightarrow> world" where
  "timerTick w =
     (let w1 = w\<lparr>timeLeft := js_sub (timeLeft w) (js_div TIMER_INTERVAL 1000)\<rparr>;
          w2 = (if timeLeft w1 \<le> 0 then endGame (w1\<lparr>timeLeft := 0\<rparr>) else w1)
      in emitTimerUpdate w2)"

definition startGameplay :: "world \<Rightarrow> world" where
  "startGameplay w =
     (let w1 = w\<lparr>state := PLAYING, clickCount := 0, timeLeft := DURATION,
                 gameStartTime := Some (now w)\<rparr>;
          w2 = emitTimerUpdate (emitClickCountUpdate (emitStateChange w1));
          (h, w3) = setInterval TimerCallback w2
      in w3\<lparr>timerInterval := Some h\<rparr>)"

text \<open>
  The body of the closure \<open>startCountdown\<close> passes to \<open>setInterval\<close>, for the schedule \<open>i\<close>
  whose captured \<open>count\<close> is \<open>c\<close>. It clears the schedule the field \<open>countdownInterval\<close>
  names.
\<close>

definition countdownTick :: "nat \<Rightarrow> int \<Rightarrow> world \<Rightarrow> world" where
  "countdownTick i c w =
     (let count = c - 1;
          w1 = w\<lparr>intervals :=
                   map (\<lambda>(j, cb). if j = i then (j, CountdownCallback count) else (j, cb))
                     (intervals w)\<rparr>
      in if 0 < count then emitCountdownTick count w1
         else startGameplay ((clearInterval (countdownInterval w1) w1)\<lparr>countdownInterval := None\<rparr>))"

definition startCountdown :: "world \<Rightarrow> world" where
  "startCountdown w =
     (if state w \<noteq> IDLE then w
      else
        let w1 = emitStateChange (w\<lparr>state := COUNTDOWN\<rparr>);
            count = COUNTDOWN_START;
            w2 = emitCountdownTick count w1;
            (h, w3) = setInterval (CountdownCallback count) w2
        in w3\<lparr>countdownInterval := Some h\<rparr>)"

text \<open>\<open>registerClick\<close> returns the click count and the engine after the call.\<close>

definition registerClick :: "world \<Rightarrow> int \<times> world" where
  "registerClick w =
     (if state w \<noteq> PLAYING then (clickCount w, w)
      else
        let w1 = emitClickCountUpdate (w\<lparr>clickCount := clickCount w + 1\<rparr>)
        in (clickCount w1, w1))"

definition reset :: "world \<Rightarrow> world" where
  "reset w =
     (let w1 = (if truthy (timerInterval w)
                then (clearInterval (timerInterval w) w)\<lparr>timerInterval := None\<rparr>
                else w);
          w2 = (if truthy (countdownInterval w1)
                then (clearInterval (countdownInterval w1) w1)\<lparr>countdownInterval := None\<rparr>
                else w1)
      in emitStateChange
           (w2\<lparr>state := IDLE, clickCount := 0, timeLeft := DURATION, gameStartTime := None\<rparr>))"

definition destroy :: "world \<Rightarrow> world" where
  "destroy w =
     (let w1 = (if truthy (timerInterval w) then clearInterval (timerInterval w) w else w);
          w2 = (if truthy (countdownInterval w1) then clearInterval (countdownInterval w1) w1
                else w1)
      in w2\<lparr>onStateChange := False, onTimerUpdate := False, onClickCountUpdate := False,
             onCountdownTick := False, onGameEnd := False\<rparr>)"

subsection \<open>Operations on an engine in its browser\<close>

text \<open>
  \<open>fire i\<close> is the browser running the callback of schedule \<open>i\<close> once; a schedule that was
  cleared (or never created) does not fire.
\<close>

definition fire :: "nat \<Rightarrow> world \<Rightarrow> world" where
  "fire i w =
     (case map_of (intervals w) i of
        None \<Rightarrow> w
      | Some (CountdownCallback c) \<Rightarrow> countdownTick i c w
      | Some TimerCallback \<Rightarrow> timerTick w)"

text \<open>
  What can happen to an engine: a call of one of its public methods, the firing of a
  schedule, and the passing of time (\<open>Wait ms\<close>).
\<close>

datatype op =
    StartCountdown
  | StartGameplay
  | RegisterClick
  | EndGame
  | Reset
  | Destroy
  | SetOnStateChange bool
  | SetOnTimerUpdate bool
  | SetOnClickCountUpdate bool
  | SetOnCountdownTick bool
  | SetOnGameEnd bool
  | Fire nat
  | Wait nat

fun step :: "op \<Rightarrow> world \<Rightarrow> world" where
  "step StartCountdown w = startCountdown w"
| "step StartGameplay w = startGameplay w"
| "step RegisterClick w = snd (registerClick w)"
| "step EndGame w = endGame w"
| "step Reset w = reset w"
| "step Destroy w = destroy w"
| "step (SetOnStateChange h) w = w\<lparr>onStateChange := h\<rparr>"
| "step (SetOnTimerUpdate h) w = w\<lparr>onTimerUpdate := h\<rparr>"
| "step (SetOnClickCountUpdate h) w = w\<lparr>onClickCountUpdate := h\<rparr>"
| "step (SetOnCountdownTick h) w = w\<lparr>onCountdownTick := h\<rparr>"
| "step (SetOnGameEnd h) w = w\<lparr>onGameEnd := h\<rparr>"
| "step (Fire i) w = fire i w"
| "step (Wait ms) w = w\<lparr>now := now w + int ms\<rparr>"

fun run :: "op list \<Rightarrow> world \<Rightarrow> world" where
  "run [] w = w"
| "run (x # xs) w = run xs (step x w)"

subsection \<open>Notions used to state the properties\<close>

text \<open>
  The \<open>duration\<close> that \<open>getGameStats\<close> computes: the seconds of wall clock since the
  start of play, and 0 when no start time is set (\<open>null\<close> and \<open>0\<close> are falsy).
\<close>

definition elapsedSeconds :: "world \<Rightarrow> number" where
  "elapsedSeconds w =
     (case gameStartTime w of
        None \<Rightarrow> 0
      | Some t0 \<Rightarrow> if t0 = 0 then 0 else js_div (js_sub (of_int (now w)) (of_int t0)) 1000)"

text \<open>The time left after \<open>n\<close> firings of the decrement schedule that start from \<open>t\<close>.\<close>

fun decay :: "nat \<Rightarrow> number \<Rightarrow> number" where
  "decay 0 t = t"
| "decay (Suc n) t = decay n (js_sub t (js_div TIMER_INTERVAL 1000))"

text \<open>Each of the next \<open>n\<close> decrements leaves the time left above 0.\<close>

fun stays_positive :: "nat \<Rightarrow> number \<Rightarrow> bool" where
  "stays_positive 0 t = True"
| "stays_positive (Suc n) t =
     (0 < js_sub t (js_div TIMER_INTERVAL 1000) \<and>
      stays_positive n (js_sub t (js_div TIMER_INTERVAL 1000)))"

fun is_GameEnd :: "event \<Rightarrow> bool" where
  "is_GameEnd (GameEnd r) = True"
| "is_GameEnd e = False"

fun is_CountdownTick :: "event \<Rightarrow> bool" where
  "is_CountdownTick (CountdownTick n) = True"
| "is_CountdownTick e = False"

text \<open>The passing of time: schedules fire and the clock advances, no method is called.\<close>

fun is_time :: "op \<Rightarrow> bool" where
  "is_time (Fire i) = True"
| "is_time (Wait ms) = True"
| "is_time x = False"

text \<open>
  The operations of one Playing phase: everything except the three methods that leave
  the phase or start another one.
\<close>

fun in_phase :: "op \<Rightarrow> bool" where
  "in_phase StartCountdown = False"
| "in_phase StartGameplay = False"
| "in_phase Reset = False"
| "in_phase x = True"

text \<open>The number of \<open>registerClick\<close> calls of a run that were made while Playing.\<close>

fun accepted :: "op list \<Rightarrow> world \<Rightarrow> nat" where
  "accepted [] w = 0"
| "accepted (x # xs) w =
     (if x = RegisterClick \<and> state w = PLAYING then 1 else 0) + accepted xs (step x w)"

text \<open>Every active schedule is the one that \<open>timerInterval\<close> or \<open>countdownInterval\<close> names.\<close>

definition tracked :: "world \<Rightarrow> bool" where
  "tracked w =
     list_all (\<lambda>(i, cb). i \<noteq> 0 \<and> (timerInterval w = Some i \<or> countdownInterval w = Some i))
       (intervals w)"

text \<open>
  The shape of an engine that was driven without calling \<open>startGameplay\<close> from outside:
  no schedule, or the countdown schedule during Countdown, or the decrement schedule
  during Playing, each named by its field; identifiers are positive and below the next
  free one.
\<close>

definition single_schedule :: "world \<Rightarrow> bool" where
  "single_schedule w =
     (0 < nextId w \<and>
      (case intervals w of
         [] \<Rightarrow> True
       | [(i, CountdownCallback c)] \<Rightarrow>
           0 < i \<and> i < nextId w \<and> countdownInterval w = Some i \<and> state w = COUNTDOWN
       | [(i, TimerCallback)] \<Rightarrow>
           0 < i \<and> i < nextId w \<and> timerInterval w = Some i \<and> state w = PLAYING
       | _ \<Rightarrow> False))"

text \<open>
  The time left is never negative, it is positive while Playing, and neither the next
  free identifier nor the timer field is 0.
\<close>

definition clock_ok :: "world \<Rightarrow> bool" where
  "clock_ok w \<longleftrightarrow>
     0 \<le> timeLeft w \<and> (state w = PLAYING \<longrightarrow> 0 < timeLeft w) \<and>
     0 < nextId w \<and> timerInterval w \<noteq> Some 0"

text \<open>No countdown schedule is active.\<close>

definition no_countdown :: "world \<Rightarrow> bool" where
  "no_countdown w = list_all (\<lambda>(i, cb). cb = TimerCallback) (intervals w)"

text \<open>A timer update carries no negative value.\<close>

fun nonneg_update :: "event \<Rightarrow> bool" where
  "nonneg_update (TimerUpdate v s) = (0 \<le> v)"
| "nonneg_update e = True"

subsection \<open>The scenario of the specification\<close>

text \<open>
  A new engine at clock 0 with a handler registered in each of the five slots; then
  \<open>startCountdown\<close> followed by \<open>k\<close> firings of the countdown schedule, which has the
  identifier 1; then, after the third of them has started the play, \<open>n\<close> firings of the
  decrement schedule, which has the identifier 2. The configuration is that of the
  scenario: 10 seconds, a tick of 100 ms and a countdown from 3. The clock stays at 0:
  the engine reads it only for the start time and for the timestamp of the result, and
  no firing depends on it.
\<close>

definition subscribed :: world where
  "subscribed =
     run [SetOnStateChange True, SetOnTimerUpdate True, SetOnClickCountUpdate True,
          SetOnCountdownTick True, SetOnGameEnd True] (GameEngine 0)"

definition counting :: "nat \<Rightarrow> world" where
  "counting k = run (StartCountdown # replicate k (Fire 1)) subscribed"

definition playing :: "nat \<Rightarrow> world" where
  "playing n = run (replicate n (Fire 2)) (counting 3)"

text \<open>The operations of the scenario up to the \<open>n\<close>th firing of the decrement schedule.\<close>

definition scenario :: "nat \<Rightarrow> op list" where
  "scenario n =
     [SetOnStateChange True, SetOnTimerUpdate True, SetOnClickCountUpdate True,
      SetOnCountdownTick True, SetOnGameEnd True] @
     StartCountdown # replicate 3 (Fire 1) @ replicate n (Fire 2)"

section \<open>Score submission (Web3Service, UIController, App)\<close>

subsection \<open>The numbers and values of the stored statistics\<close>

text \<open>
  The statistics that \<open>saveDemoStats\<close> reads come out of \<open>JSON.parse\<close>, so their fields can
  hold any value and any binary64 number. A number is a finite binary64 value, \<open>NaN\<close> or
  one of the two infinities; the negative zero is not told apart from zero, which no step
  of the submission can observe. A sum that rounds to \<open>2^1024\<close> or beyond in magnitude is an
  infinity.
\<close>

datatype js_num = Finite rat | NaN | PosInf | NegInf

definition fl_num :: "rat \<Rightarrow> js_num" where
  "fl_num r =
     (if 2 ^ 1024 \<le> \<bar>fl r\<bar> then (if 0 < r then PosInf else NegInf) else Finite (fl r))"

fun js_add :: "js_num \<Rightarrow> js_num \<Rightarrow> js_num" where
  "js_add (Finite x) (Finite y) = fl_num (x + y)"
| "js_add NaN y = NaN"
| "js_add x NaN = NaN"
| "js_add PosInf NegInf = NaN"
| "js_add NegInf PosInf = NaN"
| "js_add PosInf y = PosInf"
| "js_add x PosInf = PosInf"
| "js_add NegInf y = NegInf"
| "js_add x NegInf = NegInf"

text \<open>\<open>x < y\<close> on numbers; a comparison with \<open>NaN\<close> is false.\<close>

fun js_less :: "js_num \<Rightarrow> js_num \<Rightarrow> bool" where
  "js_less (Finite x) (Finite y) = (x < y)"
| "js_less NaN y = False"
| "js_less x NaN = False"
| "js_less x NegInf = False"
| "js_less PosInf y = False"
| "js_less NegInf y = True"
| "js_less x PosInf = True"

text \<open>
  The value of a property. \<open>Undefined\<close> is what reading a property that the object does not
  have yields. \<open>Structured k\<close> is an array or an object, known by an identifier; what the
  language does with it is told by the runtime below.
\<close>

datatype js_value =
    Undefined
  | Null
  | Boolean bool
  | Number js_num
  | String string
  | Structured nat

text \<open>
  What \<open>JSON.parse\<close> returns on a stored text, as far as \<open>saveDemoStats\<close> can tell: \<open>null\<close>; a
  number, a string or a boolean; an array; or an object, given by the values of its
  properties \<open>totalScores\<close>, \<open>bestScore\<close> and \<open>totalClicks\<close>, in this order. The other
  properties of an object play no part.
\<close>

datatype parsed =
    ParsedNull
  | ParsedPrimitive
  | ParsedArray
  | StatsObject js_value js_value js_value

text \<open>
  What \<open>localStorage\<close> holds under the key \<open>'playerStats'\<close>: nothing (or the empty string,
  which is falsy as well), a text on which \<open>JSON.parse\<close> throws, or a text that it parses.
\<close>

datatype stored = Absent | Unparsable | Item parsed

text \<open>
  The conversions of the language that are not arithmetic, taken as they are from the
  runtime the program runs in. \<open>toPrimitive k\<close> is the string that the array or object \<open>k\<close>
  converts to, or \<open>None\<close> when the conversion throws a \<open>TypeError\<close>; an array or object that
  \<open>JSON.parse\<close> built converts to a string or not at all. \<open>stringToNumber\<close> is the
  conversion of a string to a number and \<open>numberToString\<close> that of a number to a string.
  \<open>restored k\<close> is the array or object that \<open>JSON.parse\<close> rebuilds from the text
  \<open>JSON.stringify\<close> writes for \<open>k\<close>. \<open>errorMessage v\<close> is the message of the \<open>TypeError\<close> that
  \<open>saveDemoStats\<close> throws when the statistics it loaded are \<open>v\<close>.
\<close>

record runtime =
  toPrimitive :: "nat \<Rightarrow> string option"
  stringToNumber :: "string \<Rightarrow> js_num"
  numberToString :: "js_num \<Rightarrow> string"
  restored :: "nat \<Rightarrow> nat"
  errorMessage :: "parsed \<Rightarrow> string"

text \<open>
  The conversion of a value to a number, as \<open>++\<close> and \<open>>\<close> apply it; \<open>None\<close> when it throws.
\<close>

definition toNumeric :: "runtime \<Rightarrow> js_value \<Rightarrow> js_num option" where
  "toNumeric rt v =
     (case v of
        Undefined \<Rightarrow> Some NaN
      | Null \<Rightarrow> Some (Finite 0)
      | Boolean b \<Rightarrow> Some (Finite (if b then 1 else 0))
      | Number x \<Rightarrow> Some x
      | String s \<Rightarrow> Some (stringToNumber rt s)
      | Structured k \<Rightarrow> map_option (stringToNumber rt) (toPrimitive rt k))"

text \<open>\<open>v++\<close>: the value the property holds afterwards.\<close>

definition increment :: "runtime \<Rightarrow> js_value \<Rightarrow> js_value option" where
  "increment rt v = map_option (\<lambda>x. Number (js_add x (Finite 1))) (toNumeric rt v)"

text \<open>
  \<open>v + score\<close>, the score being a number: a concatenation when \<open>v\<close> is a string or converts
  to one, a sum of numbers otherwise.
\<close>

definition plus :: "runtime \<Rightarrow> js_value \<Rightarrow> js_num \<Rightarrow> js_value option" where
  "plus rt v y =
     (case v of
        String s \<Rightarrow> Some (String (s @ numberToString rt y))
      | Structured k \<Rightarrow>
          map_option (\<lambda>s. String (s @ numberToString rt y)) (toPrimitive rt k)
      | _ \<Rightarrow> map_option (\<lambda>x. Number (js_add x y)) (toNumeric rt v))"

text \<open>\<open>score > v\<close>, the score being a number.\<close>

definition greater :: "runtime \<Rightarrow> js_num \<Rightarrow> js_value \<Rightarrow> bool option" where
  "greater rt y v = map_option (\<lambda>x. js_less x y) (toNumeric rt v)"

text \<open>
  A value after \<open>JSON.stringify\<close> and \<open>JSON.parse\<close>: \<open>NaN\<close> and the infinities are written as
  \<open>null\<close>, and a property that holds \<open>undefined\<close> is left out.
\<close>

definition reparse_value :: "runtime \<Rightarrow> js_value \<Rightarrow> js_value" where
  "reparse_value rt v =
     (case v of
        Number (Finite x) \<Rightarrow> Number (Finite x)
      | Number _ \<Rightarrow> Null
      | Structured k \<Rightarrow> Structured (restored rt k)
      | _ \<Rightarrow> v)"

definition reparse :: "runtime \<Rightarrow> parsed \<Rightarrow> parsed" where
  "reparse rt v =
     (case v of
        StatsObject g b c \<Rightarrow>
          StatsObject (reparse_value rt g) (reparse_value rt b) (reparse_value rt c)
      | _ \<Rightarrow> v)"

subsection \<open>The page, the network and the service\<close>

text \<open>The statistics as the contract returns them, after \<open>toNumber()\<close>.\<close>

record player_stats =
  totalScores :: int
  bestScore :: int
  totalClicks :: int

datatype alert_type = SUCCESS | ERROR | WARNING | INFO

text \<open>
  The calls of \<open>UIController\<close> methods that write to the page. The elements of the page
  exist, so that writing to them does not throw. The check mark and the cross that open
  some messages of the source are left out of the strings.
\<close>

datatype ui_call =
    UpdateStorageStatus string
  | SetStartButtonEnabled bool
  | ShowAlert string alert_type
  | UpdateGameStatus string
  | UpdateStats player_stats
  | UpdateStatsDemo parsed

text \<open>The calls of contract methods, each a request to the network.\<close>

datatype network_call = ContractSubmitScore int | ContractGetPlayerStats string

text \<open>
  The ledger is outside the program. \<open>submitOutcome\<close> is what \<open>contract.submitScore\<close>
  followed by \<open>tx.wait()\<close> yields: a receipt with its transaction hash, or a thrown error
  with its \<open>reason\<close> and \<open>message\<close>. \<open>statsOutcome\<close> is what \<open>contract.getPlayerStats\<close> yields.
\<close>

datatype tx_outcome = Receipt string | Rejected "string option" "string option"

datatype stats_outcome = StatsRead player_stats | StatsFailed "string option"

record ledger =
  submitOutcome :: "int \<Rightarrow> tx_outcome"
  statsOutcome :: "string \<Rightarrow> stats_outcome"

record submit_result =
  success :: bool
  txHash :: "string option"
  error :: "string option"

record stats_result =
  statsSuccess :: bool
  stats :: "player_stats option"
  statsError :: "string option"

text \<open>
  The fields of \<open>Web3Service\<close> that the submission reads (\<open>contract\<close> is \<open>True\<close> when the field
  holds a contract object); the item of \<open>localStorage\<close> and whether its methods \<open>getItem\<close> and
  \<open>setItem\<close> throw, as they do when storage is forbidden or full; the runtime; and the calls
  made so far to the page and to the network.
\<close>

record app =
  contract :: bool
  walletAddress :: "string option"
  isDemoMode :: bool
  localStorage :: stored
  getItemThrows :: bool
  setItemThrows :: bool
  js :: runtime
  ui :: "ui_call list"
  network :: "network_call list"

text \<open>\<open>a || b\<close> on an optional string: \<open>undefined\<close> and the empty string are falsy.\<close>

definition js_or :: "string option \<Rightarrow> string \<Rightarrow> string" where
  "js_or a b = (case a of None \<Rightarrow> b | Some x \<Rightarrow> if x = [] then b else x)"

definition ui_do :: "ui_call \<Rightarrow> app \<Rightarrow> app" where
  "ui_do c a = a\<lparr>ui := ui a @ [c]\<rparr>"

subsection \<open>UIController\<close>

definition defaultStats :: parsed where
  "defaultStats = StatsObject (Number (Finite 0)) (Number (Finite 0)) (Number (Finite 0))"

text \<open>
  \<open>_loadDemoStats\<close>: the default statistics when \<open>getItem\<close> throws, when nothing is stored and
  when \<open>JSON.parse\<close> throws, and otherwise whatever \<open>JSON.parse\<close> returns.
\<close>

definition loadDemoStats :: "app \<Rightarrow> parsed" where
  "loadDemoStats a =
     (if getItemThrows a then defaultStats
      else case localStorage a of
             Absent \<Rightarrow> defaultStats
           | Unparsable \<Rightarrow> defaultStats
           | Item v \<Rightarrow> v)"

text \<open>
  \<open>updateStatsDemo\<close> reads three properties of what it loads, which throws a \<open>TypeError\<close> on
  \<open>null\<close> (the result \<open>None\<close>), and writes them to the page.
\<close>

definition updateStatsDemo :: "app \<Rightarrow> app option" where
  "updateStatsDemo a =
     (case loadDemoStats a of
        ParsedNull \<Rightarrow> None
      | v \<Rightarrow> Some (ui_do (UpdateStatsDemo v) a))"

text \<open>
  The three statements of \<open>saveDemoStats\<close> that change the loaded statistics, for the
  score \<open>y\<close>; \<open>None\<close> when one of them throws a \<open>TypeError\<close>. Reading a property of \<open>null\<close>
  throws. On a number, a string or a boolean the property reads as \<open>undefined\<close> and the
  assignment of \<open>++\<close> throws, the body of a class being strict code. An array takes the new
  properties, which \<open>JSON.stringify\<close> then leaves out.
\<close>

definition changeStats :: "runtime \<Rightarrow> js_num \<Rightarrow> parsed \<Rightarrow> parsed option" where
  "changeStats rt y v =
     (case v of
        ParsedNull \<Rightarrow> None
      | ParsedPrimitive \<Rightarrow> None
      | ParsedArray \<Rightarrow> Some ParsedArray
      | StatsObject g b c \<Rightarrow>
          (case increment rt g of
             None \<Rightarrow> None
           | Some g1 \<Rightarrow>
               (case plus rt c y of
                  None \<Rightarrow> None
                | Some c1 \<Rightarrow>
                    (case greater rt y b of
                       None \<Rightarrow> None
                     | Some True \<Rightarrow> Some (StatsObject g1 (Number y) c1)
                     | Some False \<Rightarrow> Some (StatsObject g1 b c1)))))"

text \<open>The number that the score \<open>n\<close> is: the binary64 value nearest to the integer.\<close>

definition scoreNumber :: "int \<Rightarrow> js_num" where
  "scoreNumber n = fl_num (of_int n)"

text \<open>
  \<open>saveDemoStats\<close> for the score \<open>n\<close>. The result is \<open>None\<close> when a statement outside its
  \<open>try\<close> block throws. Inside the block, a throwing \<open>setItem\<close> and a throwing
  \<open>updateStatsDemo\<close> are caught and logged.
\<close>

definition saveDemoStats :: "int \<Rightarrow> app \<Rightarrow> app option" where
  "saveDemoStats n a =
     (case changeStats (js a) (scoreNumber n) (loadDemoStats a) of
        None \<Rightarrow> None
      | Some v \<Rightarrow>
          Some (if setItemThrows a then a
                else case updateStatsDemo (a\<lparr>localStorage := Item (reparse (js a) v)\<rparr>) of
                       None \<Rightarrow> a\<lparr>localStorage := Item (reparse (js a) v)\<rparr>
                     | Some a1 \<Rightarrow> a1))"

subsection \<open>Web3Service\<close>

text \<open>
  The message of the range check is the template
  \<open>Invalid score. Must be between ${MIN_SCORE} and ${MAX_SCORE}\<close> at the configured bounds.
\<close>

definition invalidScoreMessage :: string where
  "invalidScoreMessage = ''Invalid score. Must be between 1 and 1000''"

definition submitScore :: "ledger \<Rightarrow> int \<Rightarrow> app \<Rightarrow> submit_result \<times> app" where
  "submitScore l n a =
     (if isDemoMode a \<or> \<not> contract a then
        (\<lparr>success = False, txHash = None,
          error = Some ''Contract not available. Running in demo mode.''\<rparr>, a)
      else if n < MIN_SCORE \<or> n > MAX_SCORE then
        (\<lparr>success = False, txHash = None, error = Some invalidScoreMessage\<rparr>, a)
      else
        (case submitOutcome l n of
           Receipt h \<Rightarrow>
             (\<lparr>success = True, txHash = Some h, error = None\<rparr>,
              a\<lparr>network := network a @ [ContractSubmitScore n]\<rparr>)
         | Rejected r m \<Rightarrow>
             (\<lparr>success = False, txHash = None,
               error = Some (js_or r (js_or m ''Failed to submit score''))\<rparr>,
              a\<lparr>network := network a @ [ContractSubmitScore n]\<rparr>)))"

text \<open>\<open>getPlayerStats\<close> called without an address, as \<open>App\<close> calls it.\<close>

definition getPlayerStats :: "ledger \<Rightarrow> app \<Rightarrow> stats_result \<times> app" where
  "getPlayerStats l a =
     (case walletAddress a of
        None \<Rightarrow>
          (\<lparr>statsSuccess = False, stats = None,
            statsError = Some ''No wallet address available''\<rparr>, a)
      | Some addr \<Rightarrow>
          if addr = [] then
            (\<lparr>statsSuccess = False, stats = None,
              statsError = Some ''No wallet address available''\<rparr>, a)
          else if isDemoMode a \<or> \<not> contract a then
            (\<lparr>statsSuccess = False, stats = None,
              statsError = Some ''Contract not available''\<rparr>, a)
          else
            (case statsOutcome l addr of
               StatsRead st \<Rightarrow>
                 (\<lparr>statsSuccess = True, stats = Some st, statsError = None\<rparr>,
                  a\<lparr>network := network a @ [ContractGetPlayerStats addr]\<rparr>)
             | StatsFailed m \<Rightarrow>
                 (\<lparr>statsSuccess = False, stats = None,
                   statsError = Some (js_or m ''Failed to load player stats'')\<rparr>,
                  a\<lparr>network := network a @ [ContractGetPlayerStats addr]\<rparr>)))"

subsection \<open>App\<close>

text \<open>The statistics that \<open>_loadPlayerStats\<close> shows when it cannot load any.\<close>

definition zeroStats :: player_stats where
  "zeroStats = \<lparr>totalScores = 0, bestScore = 0, totalClicks = 0\<rparr>"

text \<open>
  \<open>App._loadPlayerStats\<close>. In demo mode a throwing \<open>updateStatsDemo\<close> is caught, and the
  zero statistics are shown.
\<close>

definition loadPlayerStats :: "ledger \<Rightarrow> app \<Rightarrow> app" where
  "loadPlayerStats l a =
     (if isDemoMode a \<or> \<not> contract a then
        (case updateStatsDemo a of
           Some a1 \<Rightarrow> a1
         | None \<Rightarrow> ui_do (UpdateStats zeroStats) a)
      else
        (case getPlayerStats l a of
           (r, a1) \<Rightarrow>
             (case stats r of
                Some st \<Rightarrow> if statsSuccess r then ui_do (UpdateStats st) a1
                           else ui_do (UpdateStats zeroStats) a1
              | None \<Rightarrow> ui_do (UpdateStats zeroStats) a1)))"

text \<open>
  \<open>App._submitScore\<close>. The only call inside its \<open>try\<close> block that throws is \<open>saveDemoStats\<close>;
  its \<open>catch\<close> block then reports the failure with the message of the error.
\<close>

definition submitScoreApp :: "ledger \<Rightarrow> int \<Rightarrow> app \<Rightarrow> app" where
  "submitScoreApp l n a =
     (if isDemoMode a \<or> \<not> contract a then
        (case saveDemoStats n a of
           Some a1 \<Rightarrow>
             ui_do (SetStartButtonEnabled True)
               (ui_do (UpdateStorageStatus ''Score saved locally (demo mode)'') a1)
         | None \<Rightarrow>
             ui_do (UpdateGameStatus ''Ready to play!'')
               (ui_do (SetStartButtonEnabled True)
                  (ui_do (ShowAlert
                            (''Failed to submit score: '' @
                             errorMessage (js a) (loadDemoStats a))
                            ERROR)
                     (ui_do (UpdateStorageStatus ''Failed to store score'') a))))
      else if n = 0 then
        ui_do (SetStartButtonEnabled True)
          (ui_do (ShowAlert ''Play again and click to submit a score!'' INFO)
             (ui_do (UpdateStorageStatus ''No score to submit (0 clicks)'') a))
      else
        (case submitScore l n
                (ui_do (UpdateStorageStatus ''Storing on blockchain...'')
                   (ui_do (UpdateGameStatus ''Storing on blockchain...'') a)) of
           (r, a1) \<Rightarrow>
             ui_do (UpdateGameStatus ''Ready to play!'')
               (ui_do (SetStartButtonEnabled True)
                  (if success r then
                     loadPlayerStats l
                       (ui_do (ShowAlert ''Score successfully stored on blockchain!'' SUCCESS)
                          (ui_do (UpdateStorageStatus ''Score stored on-chain!'') a1))
                   else
                     ui_do (ShowAlert
                              (''Failed to submit score: '' @
                               (case error r of None \<Rightarrow> ''null'' | Some e \<Rightarrow> e))
                              ERROR)
                       (ui_do (UpdateStorageStatus ''Failed to store score'') a1)))))"

subsection \<open>Fixed inputs\<close>

text \<open>
  A runtime, for inputs on which its conversions are not called. A \<open>Web3Service\<close> as its
  constructor leaves it, before any wallet is connected, with an empty \<open>localStorage\<close> that
  works. A ledger that accepts every submission. A store that holds the statistics of
  three games.
\<close>

definition plainRuntime :: runtime where
  "plainRuntime =
     \<lparr>toPrimitive = (\<lambda>k. Some ''[object Object]''),
      stringToNumber = (\<lambda>s. NaN),
      numberToString = (\<lambda>x. ''0''),
      restored = (\<lambda>k. k),
      errorMessage = (\<lambda>v. ''Cannot read properties of null'')\<rparr>"

definition newService :: app where
  "newService =
     \<lparr>contract = False, walletAddress = None, isDemoMode = False,
      localStorage = Absent, getItemThrows = False, setItemThrows = False,
      js = plainRuntime, ui = [], network = []\<rparr>"

definition acceptingLedger :: ledger where
  "acceptingLedger =
     \<lparr>submitOutcome = (\<lambda>n. Receipt ''0xabc''),
      statsOutcome = (\<lambda>addr. StatsRead zeroStats)\<rparr>"


section \<open>Properties of the engine\<close>

subsection \<open>What the emitters and the timer functions leave alone\<close>

lemma emit_fields [simp]:
  "state (emit h e w) = state w"
  "clickCount (emit h e w) = clickCount w"
  "timeLeft (emit h e w) = timeLeft w"
  "timerInterval (emit h e w) = timerInterval w"
  "countdownInterval (emit h e w) = countdownInterval w"
  "gameStartTime (emit h e w) = gameStartTime w"
  "onStateChange (emit h e w) = onStateChange w"
  "onTimerUpdate (emit h e w) = onTimerUpdate w"
  "onClickCountUpdate (emit h e w) = onClickCountUpdate w"
  "onCountdownTick (emit h e w) = onCountdownTick w"
  "onGameEnd (emit h e w) = onGameEnd w"
  "now (emit h e w) = now w"
  "intervals (emit h e w) = intervals w"
  "nextId (emit h e w) = nextId w"
  "emitted (emit h e w) = emitted w @ (if h then [e] else [])"
  by (simp_all add: emit_def)

lemma clearInterval_fields [simp]:
  "state (clearInterval h w) = state w"
  "clickCount (clearInterval h w) = clickCount w"
  "timeLeft (clearInterval h w) = timeLeft w"
  "timerInterval (clearInterval h w) = timerInterval w"
  "countdownInterval (clearInterval h w) = countdownInterval w"
  "gameStartTime (clearInterval h w) = gameStartTime w"
  "onStateChange (clearInterval h w) = onStateChange w"
  "onTimerUpdate (clearInterval h w) = onTimerUpdate w"
  "onClickCountUpdate (clearInterval h w) = onClickCountUpdate w"
  "onCountdownTick (clearInterval h w) = onCountdownTick w"
  "onGameEnd (clearInterval h w) = onGameEnd w"
  "now (clearInterval h w) = now w"
  "nextId (clearInterval h w) = nextId w"
  "emitted (clearInterval h w) = emitted w"
  "intervals (clearInterval h w) = filter (\<lambda>(j, cb). Some j \<noteq> h) (intervals w)"
  by (simp_all add: clearInterval_def split: option.splits)

lemma truthy_iff [simp]: "truthy h \<longleftrightarrow> h \<noteq> None \<and> h \<noteq> Some 0"
  by (simp add: truthy_def split: option.splits)

lemma getTimerStatus_zero [simp]: "timeLeft w = 0 \<Longrightarrow> getTimerStatus w = Danger"
  by (simp add: getTimerStatus_def DANGER_THRESHOLD_def)

lemma getTimerStatus_full [simp]: "timeLeft w = DURATION \<Longrightarrow> getTimerStatus w = Normal"
  by (simp add: getTimerStatus_def DANGER_THRESHOLD_def WARNING_THRESHOLD_def DURATION_def)


lemmas emitters =
  emitStateChange_def emitTimerUpdate_def emitClickCountUpdate_def emitCountdownTick_def

subsection \<open>What each method does to each field\<close>

lemma endGame_fields [simp]:
  "state (endGame w) = (if state w = PLAYING then FINISHED else state w)"
  "timeLeft (endGame w) = (if state w = PLAYING then 0 else timeLeft w)"
  "timerInterval (endGame w) =
     (if state w = PLAYING \<and> truthy (timerInterval w) then None else timerInterval w)"
  "intervals (endGame w) =
     (if state w = PLAYING \<and> truthy (timerInterval w)
      then filter (\<lambda>(j, cb). Some j \<noteq> timerInterval w) (intervals w) else intervals w)"
  "clickCount (endGame w) = clickCount w"
  "countdownInterval (endGame w) = countdownInterval w"
  "gameStartTime (endGame w) = gameStartTime w"
  "onStateChange (endGame w) = onStateChange w"
  "onTimerUpdate (endGame w) = onTimerUpdate w"
  "onClickCountUpdate (endGame w) = onClickCountUpdate w"
  "onCountdownTick (endGame w) = onCountdownTick w"
  "onGameEnd (endGame w) = onGameEnd w"
  "now (endGame w) = now w"
  "nextId (endGame w) = nextId w"
  by (simp_all add: endGame_def emitters Let_def)

lemma endGame_emitted:
  "emitted (endGame w) =
     emitted w @
     (if state w = PLAYING
      then (if onStateChange w then [StateChange FINISHED] else []) @
           (if onTimerUpdate w then [TimerUpdate 0 Danger] else []) @
           (if onGameEnd w
            then [GameEnd \<lparr>score = clickCount w, duration = DURATION, timestamp = now w\<rparr>]
            else [])
      else [])"
  by (simp add: endGame_def emitters Let_def)

lemma startGameplay_fields [simp]:
  "state (startGameplay w) = PLAYING"
  "clickCount (startGameplay w) = 0"
  "timeLeft (startGameplay w) = DURATION"
  "gameStartTime (startGameplay w) = Some (now w)"
  "timerInterval (startGameplay w) = Some (nextId w)"
  "intervals (startGameplay w) = intervals w @ [(nextId w, TimerCallback)]"
  "nextId (startGameplay w) = Suc (nextId w)"
  "countdownInterval (startGameplay w) = countdownInterval w"
  "onStateChange (startGameplay w) = onStateChange w"
  "onTimerUpdate (startGameplay w) = onTimerUpdate w"
  "onClickCountUpdate (startGameplay w) = onClickCountUpdate w"
  "onCountdownTick (startGameplay w) = onCountdownTick w"
  "onGameEnd (startGameplay w) = onGameEnd w"
  "now (startGameplay w) = now w"
  by (simp_all add: startGameplay_def setInterval_def emitters Let_def)

lemma startGameplay_emitted:
  "emitted (startGameplay w) =
     emitted w @
     (if onStateChange w then [StateChange PLAYING] else []) @
     (if onClickCountUpdate w then [ClickCountUpdate 0] else []) @
     (if onTimerUpdate w then [TimerUpdate DURATION Normal] else [])"
  by (simp add: startGameplay_def setInterval_def emitters Let_def)

lemma startCountdown_fields [simp]:
  "state (startCountdown w) = (if state w = IDLE then COUNTDOWN else state w)"
  "countdownInterval (startCountdown w) =
     (if state w = IDLE then Some (nextId w) else countdownInterval w)"
  "intervals (startCountdown w) =
     (if state w = IDLE then intervals w @ [(nextId w, CountdownCallback COUNTDOWN_START)]
      else intervals w)"
  "nextId (startCountdown w) = (if state w = IDLE then Suc (nextId w) else nextId w)"
  "clickCount (startCountdown w) = clickCount w"
  "timeLeft (startCountdown w) = timeLeft w"
  "timerInterval (startCountdown w) = timerInterval w"
  "gameStartTime (startCountdown w) = gameStartTime w"
  "onStateChange (startCountdown w) = onStateChange w"
  "onTimerUpdate (startCountdown w) = onTimerUpdate w"
  "onClickCountUpdate (startCountdown w) = onClickCountUpdate w"
  "onCountdownTick (startCountdown w) = onCountdownTick w"
  "onGameEnd (startCountdown w) = onGameEnd w"
  "now (startCountdown w) = now w"
  by (simp_all add: startCountdown_def setInterval_def emitters Let_def)

lemma startCountdown_emitted:
  "emitted (startCountdown w) =
     emitted w @
     (if state w = IDLE
      then (if onStateChange w then [StateChange COUNTDOWN] else []) @
           (if onCountdownTick w then [CountdownTick COUNTDOWN_START] else [])
      else [])"
  by (simp add: startCountdown_def setInterval_def emitters Let_def)

lemma registerClick_fields [simp]:
  "clickCount (snd (registerClick w)) =
     (if state w = PLAYING then clickCount w + 1 else clickCount w)"
  "state (snd (registerClick w)) = state w"
  "timeLeft (snd (registerClick w)) = timeLeft w"
  "timerInterval (snd (registerClick w)) = timerInterval w"
  "countdownInterval (snd (registerClick w)) = countdownInterval w"
  "gameStartTime (snd (registerClick w)) = gameStartTime w"
  "onStateChange (snd (registerClick w)) = onStateChange w"
  "onTimerUpdate (snd (registerClick w)) = onTimerUpdate w"
  "onClickCountUpdate (snd (registerClick w)) = onClickCountUpdate w"
  "onCountdownTick (snd (registerClick w)) = onCountdownTick w"
  "onGameEnd (snd (registerClick w)) = onGameEnd w"
  "now (snd (registerClick w)) = now w"
  "intervals (snd (registerClick w)) = intervals w"
  "nextId (snd (registerClick w)) = nextId w"
  by (simp_all add: registerClick_def emitters Let_def)

lemma registerClick_emitted:
  "emitted (snd (registerClick w)) =
     emitted w @
     (if state w = PLAYING \<and> onClickCountUpdate w then [ClickCountUpdate (clickCount w + 1)]
      else [])"
  by (simp add: registerClick_def emitters Let_def)

lemma reset_fields [simp]:
  "state (reset w) = IDLE"
  "clickCount (reset w) = 0"
  "timeLeft (reset w) = DURATION"
  "gameStartTime (reset w) = None"
  "timerInterval (reset w) = (if truthy (timerInterval w) then None else timerInterval w)"
  "countdownInterval (reset w) =
     (if truthy (countdownInterval w) then None else countdownInterval w)"
  "intervals (reset w) =
     filter (\<lambda>(j, cb). \<not> (truthy (countdownInterval w) \<and> Some j = countdownInterval w))
       (filter (\<lambda>(j, cb). \<not> (truthy (timerInterval w) \<and> Some j = timerInterval w))
          (intervals w))"
  "onStateChange (reset w) = onStateChange w"
  "onTimerUpdate (reset w) = onTimerUpdate w"
  "onClickCountUpdate (reset w) = onClickCountUpdate w"
  "onCountdownTick (reset w) = onCountdownTick w"
  "onGameEnd (reset w) = onGameEnd w"
  "now (reset w) = now w"
  "nextId (reset w) = nextId w"
  by (auto simp add: reset_def emitters Let_def intro: filter_cong)

lemma reset_emitted:
  "emitted (reset w) = emitted w @ (if onStateChange w then [StateChange IDLE] else [])"
  by (simp add: reset_def emitters Let_def)

lemma destroy_fields [simp]:
  "state (destroy w) = state w"
  "clickCount (destroy w) = clickCount w"
  "timeLeft (destroy w) = timeLeft w"
  "gameStartTime (destroy w) = gameStartTime w"
  "timerInterval (destroy w) = timerInterval w"
  "countdownInterval (destroy w) = countdownInterval w"
  "intervals (destroy w) =
     filter (\<lambda>(j, cb). \<not> (truthy (countdownInterval w) \<and> Some j = countdownInterval w))
       (filter (\<lambda>(j, cb). \<not> (truthy (timerInterval w) \<and> Some j = timerInterval w))
          (intervals w))"
  "onStateChange (destroy w) = False"
  "onTimerUpdate (destroy w) = False"
  "onClickCountUpdate (destroy w) = False"
  "onCountdownTick (destroy w) = False"
  "onGameEnd (destroy w) = False"
  "now (destroy w) = now w"
  "nextId (destroy w) = nextId w"
  "emitted (destroy w) = emitted w"
  by (auto simp add: destroy_def Let_def intro: filter_cong)

lemma timerTick_continue:
  "0 < js_sub (timeLeft w) (js_div TIMER_INTERVAL 1000) \<Longrightarrow>
   timerTick w = emitTimerUpdate (w\<lparr>timeLeft := js_sub (timeLeft w) (js_div TIMER_INTERVAL 1000)\<rparr>)"
  by (simp add: timerTick_def Let_def)

lemma timerTick_finish:
  "js_sub (timeLeft w) (js_div TIMER_INTERVAL 1000) \<le> 0 \<Longrightarrow>
   timerTick w = emitTimerUpdate (endGame (w\<lparr>timeLeft := 0\<rparr>))"
  by (simp add: timerTick_def Let_def)

lemma timerTick_fields [simp]:
  "state (timerTick w) =
     (if js_sub (timeLeft w) (js_div TIMER_INTERVAL 1000) \<le> 0 \<and> state w = PLAYING
      then FINISHED else state w)"
  "timeLeft (timerTick w) =
     (if js_sub (timeLeft w) (js_div TIMER_INTERVAL 1000) \<le> 0 then 0
      else js_sub (timeLeft w) (js_div TIMER_INTERVAL 1000))"
  "timerInterval (timerTick w) =
     (if js_sub (timeLeft w) (js_div TIMER_INTERVAL 1000) \<le> 0 \<and> state w = PLAYING \<and>
         truthy (timerInterval w)
      then None else timerInterval w)"
  "intervals (timerTick w) =
     (if js_sub (timeLeft w) (js_div TIMER_INTERVAL 1000) \<le> 0 \<and> state w = PLAYING \<and>
         truthy (timerInterval w)
      then filter (\<lambda>(j, cb). Some j \<noteq> timerInterval w) (intervals w) else intervals w)"
  "clickCount (timerTick w) = clickCount w"
  "countdownInterval (timerTick w) = countdownInterval w"
  "gameStartTime (timerTick w) = gameStartTime w"
  "onStateChange (timerTick w) = onStateChange w"
  "onTimerUpdate (timerTick w) = onTimerUpdate w"
  "onClickCountUpdate (timerTick w) = onClickCountUpdate w"
  "onCountdownTick (timerTick w) = onCountdownTick w"
  "onGameEnd (timerTick w) = onGameEnd w"
  "now (timerTick w) = now w"
  "nextId (timerTick w) = nextId w"
  by (simp_all add: timerTick_def emitters Let_def)

lemma timerTick_emitted:
  "emitted (timerTick w) =
     emitted w @
     (if js_sub (timeLeft w) (js_div TIMER_INTERVAL 1000) \<le> 0
      then (if state w = PLAYING
            then (if onStateChange w then [StateChange FINISHED] else []) @
                 (if onTimerUpdate w then [TimerUpdate 0 Danger] else []) @
                 (if onGameEnd w
                  then [GameEnd \<lparr>score = clickCount w, duration = DURATION, timestamp = now w\<rparr>]
                  else [])
            else []) @
           (if onTimerUpdate w then [TimerUpdate 0 Danger] else [])
      else (if onTimerUpdate w
            then [TimerUpdate (js_sub (timeLeft w) (js_div TIMER_INTERVAL 1000))
                    (getTimerStatus
                       (w\<lparr>timeLeft := js_sub (timeLeft w) (js_div TIMER_INTERVAL 1000)\<rparr>))]
            else []))"
  by (simp add: timerTick_def emitters Let_def endGame_emitted)

lemma countdownTick_fields [simp]:
  "state (countdownTick i c w) = (if 0 < c - 1 then state w else PLAYING)"
  "clickCount (countdownTick i c w) = (if 0 < c - 1 then clickCount w else 0)"
  "timeLeft (countdownTick i c w) = (if 0 < c - 1 then timeLeft w else DURATION)"
  "gameStartTime (countdownTick i c w) = (if 0 < c - 1 then gameStartTime w else Some (now w))"
  "timerInterval (countdownTick i c w) = (if 0 < c - 1 then timerInterval w else Some (nextId w))"
  "countdownInterval (countdownTick i c w) = (if 0 < c - 1 then countdownInterval w else None)"
  "nextId (countdownTick i c w) = (if 0 < c - 1 then nextId w else Suc (nextId w))"
  "onStateChange (countdownTick i c w) = onStateChange w"
  "onTimerUpdate (countdownTick i c w) = onTimerUpdate w"
  "onClickCountUpdate (countdownTick i c w) = onClickCountUpdate w"
  "onCountdownTick (countdownTick i c w) = onCountdownTick w"
  "onGameEnd (countdownTick i c w) = onGameEnd w"
  "now (countdownTick i c w) = now w"
  by (simp_all add: countdownTick_def emitters Let_def)

lemma countdownTick_intervals:
  "intervals (countdownTick i c w) =
     (if 0 < c - 1
      then map (\<lambda>(j, cb). if j = i then (j, CountdownCallback (c - 1)) else (j, cb)) (intervals w)
      else filter (\<lambda>(j, cb). Some j \<noteq> countdownInterval w)
             (map (\<lambda>(j, cb). if j = i then (j, CountdownCallback (c - 1)) else (j, cb))
                (intervals w)) @
           [(nextId w, TimerCallback)])"
  by (simp add: countdownTick_def emitters Let_def)

lemma countdownTick_emitted:
  "emitted (countdownTick i c w) =
     emitted w @
     (if 0 < c - 1 then (if onCountdownTick w then [CountdownTick (c - 1)] else [])
      else (if onStateChange w then [StateChange PLAYING] else []) @
           (if onClickCountUpdate w then [ClickCountUpdate 0] else []) @
           (if onTimerUpdate w then [TimerUpdate DURATION Normal] else []))"
  by (simp add: countdownTick_def emitters Let_def startGameplay_emitted)

lemma fire_cases:
  "fire i w =
     (case map_of (intervals w) i of
        None \<Rightarrow> w
      | Some (CountdownCallback c) \<Rightarrow> countdownTick i c w
      | Some TimerCallback \<Rightarrow> timerTick w)"
  by (simp add: fire_def)

text \<open>The shape of an engine with at most one schedule.\<close>

lemma single_schedule_iff:
  "single_schedule w \<longleftrightarrow>
     0 < nextId w \<and>
     (intervals w = [] \<or>
      (\<exists>i c. intervals w = [(i, CountdownCallback c)] \<and> 0 < i \<and> i < nextId w \<and>
             countdownInterval w = Some i \<and> state w = COUNTDOWN) \<or>
      (\<exists>i. intervals w = [(i, TimerCallback)] \<and> 0 < i \<and> i < nextId w \<and>
           timerInterval w = Some i \<and> state w = PLAYING))"
  by (auto simp: single_schedule_def split: list.splits callback.splits prod.splits)

lemma single_schedule_endGame: "single_schedule w \<Longrightarrow> single_schedule (endGame w)"
  by (auto simp: single_schedule_iff)

lemma single_schedule_reset: "single_schedule w \<Longrightarrow> single_schedule (reset w)"
  by (auto simp: single_schedule_iff)

lemma single_schedule_destroy: "single_schedule w \<Longrightarrow> single_schedule (destroy w)"
  by (auto simp: single_schedule_iff)

lemma single_schedule_startCountdown: "single_schedule w \<Longrightarrow> single_schedule (startCountdown w)"
  by (auto simp: single_schedule_iff)

lemma single_schedule_registerClick:
  "single_schedule w \<Longrightarrow> single_schedule (snd (registerClick w))"
  by (auto simp: single_schedule_iff)

lemma single_schedule_timerTick: "single_schedule w \<Longrightarrow> single_schedule (timerTick w)"
  by (auto simp: single_schedule_iff)

lemma single_schedule_countdownTick:
  "single_schedule w \<Longrightarrow> map_of (intervals w) i = Some (CountdownCallback c) \<Longrightarrow>
   single_schedule (countdownTick i c w)"
  by (auto simp: single_schedule_iff countdownTick_intervals split: if_splits)

lemma single_schedule_fire: "single_schedule w \<Longrightarrow> single_schedule (fire i w)"
  by (simp add: fire_def single_schedule_timerTick single_schedule_countdownTick
      split: option.splits callback.splits)

lemma single_schedule_step:
  "single_schedule w \<Longrightarrow> x \<noteq> StartGameplay \<Longrightarrow> single_schedule (step x w)"
  by (cases x)
    (simp_all add: single_schedule_endGame single_schedule_reset single_schedule_destroy
      single_schedule_registerClick single_schedule_fire single_schedule_startCountdown,
     simp_all add: single_schedule_iff)

lemma single_schedule_run:
  "single_schedule w \<Longrightarrow> \<forall>x\<in>set xs. x \<noteq> StartGameplay \<Longrightarrow> single_schedule (run xs w)"
  by (induction xs arbitrary: w) (simp_all add: single_schedule_step)

lemma single_schedule_GameEngine: "single_schedule (GameEngine t)"
  by (simp add: single_schedule_def GameEngine_def)

subsection \<open>Evaluating the arithmetic of the decrement\<close>

lemma binade_high_numeral:
  "binade_high (numeral k) r = (if r < 2 then 0 else binade_high (pred_numeral k) (r / 2) + 1)"
  by (simp add: numeral_eq_Suc)

lemma binade_low_numeral:
  "binade_low (numeral k) r = (if 1 \<le> r then 0 else binade_low (pred_numeral k) (2 * r) - 1)"
  by (simp add: numeral_eq_Suc)

lemma floor_rat_numeral_div:
  "\<lfloor>numeral a / numeral b :: rat\<rfloor> = numeral a div numeral b"
  using floor_divide_of_int_eq [of "numeral a" "numeral b", where ?'a = rat] by simp

lemmas fl_eval =
  js_sub_def fl_def round_to_def binade_def pow2_def round_half_even_def
  binade_high_numeral binade_low_numeral floor_rat_numeral_div

text \<open>The decrement is the binary64 value nearest to one tenth.\<close>

lemma timer_step: "js_div TIMER_INTERVAL 1000 = 3602879701896397 / 36028797018963968"
  by (simp add: TIMER_INTERVAL_def js_div_def fl_eval)

lemma decay_numeral:
  "decay (numeral k) t = decay (pred_numeral k) (js_sub t (js_div TIMER_INTERVAL 1000))"
  by (simp add: numeral_eq_Suc)

lemma stays_positive_numeral:
  "stays_positive (numeral k) t =
     (0 < js_sub t (js_div TIMER_INTERVAL 1000) \<and>
      stays_positive (pred_numeral k) (js_sub t (js_div TIMER_INTERVAL 1000)))"
  by (simp add: numeral_eq_Suc)

lemma decay_100: "decay 100 DURATION = 677 / 36028797018963968"
  by (simp add: DURATION_def decay_numeral timer_step fl_eval)

lemma stays_positive_100: "stays_positive 100 DURATION"
  by (simp add: DURATION_def stays_positive_numeral timer_step fl_eval)

lemma decay_101: "js_sub (677 / 36028797018963968) (js_div TIMER_INTERVAL 1000) \<le> 0"
  by (simp add: timer_step fl_eval)

subsection \<open>Firings of the decrement schedule that leave time on the clock\<close>

lemma fire_timer: "map_of (intervals w) i = Some TimerCallback \<Longrightarrow> fire i w = timerTick w"
  by (simp add: fire_def)

lemma ticks_continue:
  "map_of (intervals w) i = Some TimerCallback \<Longrightarrow> stays_positive n (timeLeft w) \<Longrightarrow>
   run (replicate n (Fire i)) w =
     w\<lparr>timeLeft := decay n (timeLeft w), emitted := emitted (run (replicate n (Fire i)) w)\<rparr>"
proof (induction n arbitrary: w)
  case 0
  then show ?case by simp
next
  case (Suc n)
  let ?t = "js_sub (timeLeft w) (js_div TIMER_INTERVAL 1000)"
  let ?w = "emitTimerUpdate (w\<lparr>timeLeft := ?t\<rparr>)"
  from Suc.prems have pos: "0 < ?t" and rest: "stays_positive n ?t" by simp_all
  have f: "fire i w = ?w"
    using Suc.prems(1) pos by (simp add: fire_timer timerTick_continue)
  have m: "map_of (intervals ?w) i = Some TimerCallback"
    using Suc.prems(1) by (simp add: emitTimerUpdate_def)
  have t: "timeLeft ?w = ?t" by (simp add: emitTimerUpdate_def)
  have "run (replicate n (Fire i)) ?w =
        ?w\<lparr>timeLeft := decay n ?t, emitted := emitted (run (replicate n (Fire i)) ?w)\<rparr>"
    using Suc.IH [OF m] rest t by simp
  then show ?case
    using f by (simp add: emitTimerUpdate_def emit_def split: if_splits)
qed

subsection \<open>The scenario\<close>

lemma subscribed_eq:
  "subscribed = (GameEngine 0)\<lparr>onStateChange := True, onTimerUpdate := True,
     onClickCountUpdate := True, onCountdownTick := True, onGameEnd := True\<rparr>"
  by (simp add: subscribed_def)

lemma counting_0:
  "counting 0 = subscribed\<lparr>state := COUNTDOWN, countdownInterval := Some 1,
     intervals := [(1, CountdownCallback 3)], nextId := 2,
     emitted := [StateChange COUNTDOWN, CountdownTick 3]\<rparr>"
  by (simp add: counting_def subscribed_eq GameEngine_def startCountdown_def setInterval_def
      emitters emit_def Let_def COUNTDOWN_START_def)

lemma counting_2:
  "counting 2 = subscribed\<lparr>state := COUNTDOWN, countdownInterval := Some 1,
     intervals := [(1, CountdownCallback 1)], nextId := 2,
     emitted := [StateChange COUNTDOWN, CountdownTick 3, CountdownTick 2, CountdownTick 1]\<rparr>"
proof -
  have "counting 2 = fire 1 (fire 1 (counting 0))"
    by (simp add: counting_def numeral_2_eq_2)
  then show ?thesis
    by (simp add: counting_0 subscribed_eq GameEngine_def fire_def countdownTick_def
        emitters emit_def Let_def)
qed

lemma playing_0:
  "playing 0 = subscribed\<lparr>state := PLAYING, gameStartTime := Some 0, timerInterval := Some 2,
     intervals := [(2, TimerCallback)], nextId := 3,
     emitted := [StateChange COUNTDOWN, CountdownTick 3, CountdownTick 2, CountdownTick 1,
                 StateChange PLAYING, ClickCountUpdate 0, TimerUpdate DURATION Normal]\<rparr>"
proof -
  have "playing 0 = fire 1 (counting 2)"
    by (simp add: playing_def counting_def numeral_3_eq_3 numeral_2_eq_2)
  then show ?thesis
    by (simp add: counting_2 subscribed_eq GameEngine_def fire_def countdownTick_def
        startGameplay_def setInterval_def clearInterval_def emitters emit_def Let_def)
qed

lemma playing_100:
  "playing 100 = (playing 0)\<lparr>timeLeft := 677 / 36028797018963968,
     emitted := emitted (playing 100)\<rparr>"
proof -
  have m: "map_of (intervals (playing 0)) 2 = Some TimerCallback"
    by (simp add: playing_0)
  have t: "timeLeft (playing 0) = DURATION"
    by (simp add: playing_0 subscribed_eq GameEngine_def)
  have "playing 100 = run (replicate 100 (Fire 2)) (playing 0)"
    by (simp add: playing_def)
  then show ?thesis
    using ticks_continue [OF m, of 100] stays_positive_100 decay_100 t by simp
qed

lemma run_append: "run (xs @ ys) w = run ys (run xs w)"
  by (induction xs arbitrary: w) simp_all

lemma playing_Suc: "playing (Suc n) = fire 2 (playing n)"
proof -
  have "replicate (Suc n) (Fire 2) = replicate n (Fire 2) @ [Fire 2]"
    by (simp add: replicate_append_same)
  then show ?thesis
    by (simp only: playing_def run_append run.simps step.simps)
qed

lemma playing_101: "playing 101 = fire 2 (playing 100)"
  using playing_Suc [of 100] by simp

lemma playing_101_eq:
  "playing 101 = (playing 0)\<lparr>state := FINISHED, timeLeft := 0, timerInterval := None,
     intervals := [],
     emitted := emitted (playing 100) @
       [StateChange FINISHED, TimerUpdate 0 Danger,
        GameEnd \<lparr>score = 0, duration = DURATION, timestamp = 0\<rparr>, TimerUpdate 0 Danger]\<rparr>"
proof -
  let ?w = "playing 100"
  have w: "?w = (playing 0)\<lparr>timeLeft := 677 / 36028797018963968, emitted := emitted ?w\<rparr>"
    by (rule playing_100)
  have m: "map_of (intervals ?w) 2 = Some TimerCallback"
    by (subst w) (simp add: playing_0)
  have t: "js_sub (timeLeft ?w) (js_div TIMER_INTERVAL 1000) \<le> 0"
    by (subst w) (simp add: decay_101)
  have "fire 2 ?w = emitTimerUpdate (endGame (?w\<lparr>timeLeft := 0\<rparr>))"
    using m t by (simp add: fire_timer timerTick_finish)
  also have "\<dots> = (playing 0)\<lparr>state := FINISHED, timeLeft := 0, timerInterval := None,
     intervals := [],
     emitted := emitted (playing 100) @
       [StateChange FINISHED, TimerUpdate 0 Danger,
        GameEnd \<lparr>score = 0, duration = DURATION, timestamp = 0\<rparr>, TimerUpdate 0 Danger]\<rparr>"
    by (subst w)
      (simp add: playing_0 subscribed_eq GameEngine_def endGame_def clearInterval_def
        emitters emit_def Let_def)
  finally show ?thesis by (simp add: playing_101)
qed

subsection \<open>Invariants of the clock and of the schedules\<close>

lemma clock_ok_GameEngine: "clock_ok (GameEngine t)"
  by (simp add: clock_ok_def GameEngine_def DURATION_def)

lemma clock_ok_fire: "clock_ok w \<Longrightarrow> clock_ok (fire i w)"
  by (auto simp: clock_ok_def fire_def DURATION_def split: option.splits callback.splits)

lemma clock_ok_step: "clock_ok w \<Longrightarrow> clock_ok (step x w)"
  by (cases x) (auto simp: clock_ok_fire, auto simp: clock_ok_def DURATION_def)

lemma clock_ok_run: "clock_ok w \<Longrightarrow> clock_ok (run xs w)"
  by (induction xs arbitrary: w) (simp_all add: clock_ok_step)

lemma finishing_step:
  assumes "state w = PLAYING" and "state (step x w) = FINISHED"
  shows "timeLeft (step x w) = 0"
    and "timerInterval w \<noteq> Some 0 \<Longrightarrow> timerInterval (step x w) = None"
    and "timerInterval w = Some i \<Longrightarrow> i \<noteq> 0 \<Longrightarrow> i \<notin> fst ` set (intervals (step x w))"
    and "timerInterval w = Some i \<Longrightarrow> i \<noteq> 0 \<Longrightarrow> fire i (step x w) = step x w"
proof -
  have fin: "x = EndGame \<or> (\<exists>j. x = Fire j \<and> map_of (intervals w) j = Some TimerCallback \<and>
      js_sub (timeLeft w) (js_div TIMER_INTERVAL 1000) \<le> 0)"
    using assms
    by (cases x) (auto simp: fire_def split: option.splits callback.splits if_splits)
  then show "timeLeft (step x w) = 0"
    using assms by (auto simp: fire_def)
  show "timerInterval (step x w) = None" if "timerInterval w \<noteq> Some 0"
    using fin assms that by (auto simp: fire_def)
  show c: "i \<notin> fst ` set (intervals (step x w))" if "timerInterval w = Some i" "i \<noteq> 0" for i
    using fin assms that by (auto simp: fire_def)
  show "fire i (step x w) = step x w" if "timerInterval w = Some i" "i \<noteq> 0"
  proof -
    have "map_of (intervals (step x w)) i = None"
      using c [OF that] by (simp add: map_of_eq_None_iff)
    then show ?thesis by (simp add: fire_def)
  qed
qed

lemma single_schedule_tracked: "single_schedule w \<Longrightarrow> tracked w"
  by (auto simp: single_schedule_iff tracked_def)

lemma single_schedule_length: "single_schedule w \<Longrightarrow> length (intervals w) \<le> 1"
  by (auto simp: single_schedule_iff)

lemma tracked_reset: "tracked w \<Longrightarrow> intervals (reset w) = []"
  by (auto simp: tracked_def list_all_iff filter_empty_conv)

lemma tracked_destroy: "tracked w \<Longrightarrow> intervals (destroy w) = []"
  by (auto simp: tracked_def list_all_iff filter_empty_conv)

lemma quiet_time_step:
  "intervals w = [] \<Longrightarrow> is_time x \<Longrightarrow>
   intervals (step x w) = [] \<and> emitted (step x w) = emitted w"
  by (cases x) (simp_all add: fire_def)

lemma quiet_time_run:
  "intervals w = [] \<Longrightarrow> \<forall>x\<in>set xs. is_time x \<Longrightarrow> emitted (run xs w) = emitted w"
proof (induction xs arbitrary: w)
  case Nil
  then show ?case by simp
next
  case (Cons x xs)
  then show ?case using quiet_time_step [of w x] by simp
qed

subsection \<open>The round-end event\<close>

lemma fire_emitted_GameEnd:
  "\<exists>new. emitted (fire i w) = emitted w @ new \<and>
     filter is_GameEnd new =
       (if onGameEnd w \<and> state w \<noteq> FINISHED \<and> state (fire i w) = FINISHED
        then [GameEnd \<lparr>score = clickCount w, duration = DURATION, timestamp = now w\<rparr>]
        else [])"
  by (auto simp: fire_def timerTick_emitted countdownTick_emitted
      split: option.splits callback.splits)

lemma step_emitted_GameEnd:
  "\<exists>new. emitted (step x w) = emitted w @ new \<and>
     filter is_GameEnd new =
       (if onGameEnd w \<and> state w \<noteq> FINISHED \<and> state (step x w) = FINISHED
        then [GameEnd \<lparr>score = clickCount w, duration = DURATION, timestamp = now w\<rparr>]
        else [])"
proof (cases x)
  case (Fire i)
  then show ?thesis using fire_emitted_GameEnd [of i w] by simp
qed (auto simp: endGame_emitted startGameplay_emitted startCountdown_emitted
      registerClick_emitted reset_emitted)

subsection \<open>Clicks\<close>

lemma phase_step:
  assumes "no_countdown w" and "in_phase x"
  shows "no_countdown (step x w)"
    and "clickCount (step x w) =
           clickCount w + (if x = RegisterClick \<and> state w = PLAYING then 1 else 0)"
proof -
  have f: "\<And>i. map_of (intervals w) i = None \<or> map_of (intervals w) i = Some TimerCallback"
  proof -
    fix i
    show "map_of (intervals w) i = None \<or> map_of (intervals w) i = Some TimerCallback"
    proof (cases "map_of (intervals w) i")
      case None
      then show ?thesis by simp
    next
      case (Some cb)
      then have "(i, cb) \<in> set (intervals w)" by (rule map_of_SomeD)
      then have "cb = TimerCallback"
        using assms(1) by (auto simp: no_countdown_def list_all_iff)
      then show ?thesis using Some by simp
    qed
  qed
  have g: "fire i w = w \<or> fire i w = timerTick w" for i
    using f [of i] by (auto simp: fire_def)
  have t: "no_countdown (timerTick w)"
    using assms(1) by (auto simp: no_countdown_def list_all_iff)
  show "no_countdown (step x w)"
  proof (cases x)
    case (Fire i)
    then show ?thesis using g [of i] t assms(1) by auto
  qed (use assms in \<open>auto simp: no_countdown_def list_all_iff\<close>)
  show "clickCount (step x w) =
           clickCount w + (if x = RegisterClick \<and> state w = PLAYING then 1 else 0)"
  proof (cases x)
    case (Fire i)
    then show ?thesis using g [of i] by auto
  qed (use assms in auto)
qed

lemma phase_run:
  "no_countdown w \<Longrightarrow> \<forall>x\<in>set xs. in_phase x \<Longrightarrow>
   clickCount (run xs w) = clickCount w + int (accepted xs w)"
proof (induction xs arbitrary: w)
  case Nil
  then show ?case by simp
next
  case (Cons x xs)
  then show ?case using phase_step [of w x] by simp
qed

subsection \<open>The clamp of the time left\<close>

lemma playing_run: "playing n = run (scenario n) (GameEngine 0)"
  by (simp only: playing_def counting_def subscribed_def scenario_def run_append run.simps
      append_Cons append_Nil)

lemma nonneg_fire:
  "list_all nonneg_update (emitted w) \<Longrightarrow> list_all nonneg_update (emitted (fire i w))"
  by (auto simp: fire_def timerTick_emitted countdownTick_emitted DURATION_def
      split: option.splits callback.splits)

lemma nonneg_step:
  "list_all nonneg_update (emitted w) \<Longrightarrow> list_all nonneg_update (emitted (step x w))"
  by (cases x)
    (simp_all add: nonneg_fire endGame_emitted startGameplay_emitted startCountdown_emitted
      registerClick_emitted reset_emitted DURATION_def)

lemma nonneg_run:
  "list_all nonneg_update (emitted w) \<Longrightarrow> list_all nonneg_update (emitted (run xs w))"
  by (induction xs arbitrary: w) (simp_all add: nonneg_step)

lemma timer_only_playing:
  "single_schedule w \<Longrightarrow> map_of (intervals w) j = Some TimerCallback \<Longrightarrow>
   state w = PLAYING \<and> timerInterval w = Some j"
  by (auto simp: single_schedule_iff split: if_splits)

lemma finished_no_schedule:
  "single_schedule w \<Longrightarrow> state w = FINISHED \<Longrightarrow> intervals w = []"
  by (auto simp: single_schedule_iff)

lemma drop_to_zero:
  assumes "single_schedule w" and "timeLeft (step x w) = 0" and "timeLeft w \<noteq> 0"
  shows "state w = PLAYING \<and> state (step x w) = FINISHED"
proof (cases x)
  case (Fire i)
  show ?thesis
  proof (cases "map_of (intervals w) i")
    case None
    then show ?thesis using assms Fire by (simp add: fire_def)
  next
    case (Some cb)
    show ?thesis
    proof (cases cb)
      case (CountdownCallback c)
      then show ?thesis using assms Fire Some by (simp add: fire_def DURATION_def split: if_splits)
    next
      case TimerCallback
      then have "state w = PLAYING"
        using timer_only_playing [OF assms(1)] Some by simp
      then show ?thesis
        using assms Fire Some TimerCallback by (simp add: fire_def split: if_splits)
    qed
  qed
qed (use assms in \<open>auto simp: DURATION_def split: if_splits\<close>)

section \<open>The claims\<close>

text \<open>
  C1, as amended. An operation emits the round-end event exactly when a handler is
  registered and the operation takes the engine into Finished, and then it emits it
  once: the score is the click count and the timestamp is the clock value of that moment,
  and the duration field is the configured duration \<open>DURATION\<close>, whatever time has
  passed since the start of play.
\<close>

theorem round_end_event:
  "\<exists>new. emitted (step x w) = emitted w @ new \<and>
     filter is_GameEnd new =
       (if onGameEnd w \<and> state w \<noteq> FINISHED \<and> state (step x w) = FINISHED
        then [GameEnd \<lparr>score = clickCount (step x w), duration = DURATION,
                        timestamp = now (step x w)\<rparr>]
        else [])"
proof (cases x)
  case (Fire i)
  then show ?thesis using fire_emitted_GameEnd [of i w] by (auto simp: fire_def
      split: option.splits callback.splits if_splits)
qed (auto simp: endGame_emitted startGameplay_emitted startCountdown_emitted
      registerClick_emitted reset_emitted)

theorem round_end_event_witness:
  "onGameEnd (startGameplay subscribed) \<and> state (startGameplay subscribed) \<noteq> FINISHED \<and>
   state (step EndGame (startGameplay subscribed)) = FINISHED \<and>
   (\<exists>new. emitted (step EndGame (startGameplay subscribed)) =
            emitted (startGameplay subscribed) @ new \<and>
          filter is_GameEnd new = [GameEnd \<lparr>score = 0, duration = 10, timestamp = 0\<rparr>])"
  using round_end_event [of EndGame "startGameplay subscribed"]
  by (simp add: subscribed_eq GameEngine_def DURATION_def)

text \<open>
  C1 as stated fails: a round started at clock 1000 and ended by \<open>endGame\<close> three seconds
  later reports the duration 10 while 3 seconds have passed.
\<close>

theorem round_end_duration_counterexample:
  "emitted (run [SetOnGameEnd True, StartGameplay, Wait 3000, EndGame] (GameEngine 1000)) =
     [GameEnd \<lparr>score = 0, duration = 10, timestamp = 4000\<rparr>] \<and>
   elapsedSeconds (run [SetOnGameEnd True, StartGameplay, Wait 3000, EndGame] (GameEngine 1000))
     = 3"
  by (simp add: GameEngine_def endGame_emitted startGameplay_emitted DURATION_def
      elapsedSeconds_def js_div_def fl_eval)

text \<open>
  C2, at the input where the code departs from it: the scenario of the specification.
  The firing of the decrement schedule that ends the round, the 101st, emits the
  timer update with value 0 twice, once from \<open>endGame\<close> and once more from the callback
  itself, around the single round-end event. A further call of \<open>endGame\<close> emits nothing.
\<close>

theorem final_tick_emissions:
  "state (playing 100) = PLAYING \<and> state (playing 101) = FINISHED \<and>
   emitted (playing 101) =
     emitted (playing 100) @
     [StateChange FINISHED, TimerUpdate 0 Danger,
      GameEnd \<lparr>score = 0, duration = 10, timestamp = 0\<rparr>, TimerUpdate 0 Danger] \<and>
   emitted (endGame (playing 101)) = emitted (playing 101)"
proof -
  have "state (playing 100) = PLAYING"
    by (subst playing_100) (simp add: playing_0)
  moreover have "state (playing 101) = FINISHED"
    by (subst playing_101_eq) simp
  moreover have "emitted (playing 101) =
     emitted (playing 100) @
     [StateChange FINISHED, TimerUpdate 0 Danger,
      GameEnd \<lparr>score = 0, duration = 10, timestamp = 0\<rparr>, TimerUpdate 0 Danger]"
    by (subst playing_101_eq) (simp add: DURATION_def)
  ultimately show ?thesis by (simp add: endGame_emitted)
qed

text \<open>
  C3, as amended. In every state reached from a new engine by operations other than a
  call of \<open>startGameplay\<close> from outside, at most one schedule is active, and \<open>reset\<close> and
  \<open>destroy\<close> leave none active.
\<close>

theorem single_schedule_lifecycle:
  assumes "\<forall>x\<in>set xs. x \<noteq> StartGameplay"
  shows "length (intervals (run xs (GameEngine t))) \<le> 1 \<and>
         intervals (reset (run xs (GameEngine t))) = [] \<and>
         intervals (destroy (run xs (GameEngine t))) = []"
proof -
  have "single_schedule (run xs (GameEngine t))"
    using assms by (simp add: single_schedule_run single_schedule_GameEngine)
  then show ?thesis
    using single_schedule_length [of "run xs (GameEngine t)"]
      single_schedule_tracked [of "run xs (GameEngine t)"]
      tracked_reset [of "run xs (GameEngine t)"] tracked_destroy [of "run xs (GameEngine t)"]
    by blast
qed

theorem single_schedule_lifecycle_witness:
  "StartGameplay \<notin> set [StartCountdown, Fire 1, RegisterClick] \<and>
   length (intervals (run [StartCountdown, Fire 1, RegisterClick] (GameEngine 0))) \<le> 1 \<and>
   intervals (reset (run [StartCountdown, Fire 1, RegisterClick] (GameEngine 0))) = [] \<and>
   intervals (destroy (run [StartCountdown, Fire 1, RegisterClick] (GameEngine 0))) = []"
  using single_schedule_lifecycle [of "[StartCountdown, Fire 1, RegisterClick]" 0] by simp

text \<open>
  C3 as stated fails: \<open>startGameplay\<close> is a public method, and called during the countdown
  it leaves the countdown schedule and the decrement schedule both active.
\<close>

theorem two_schedules_counterexample:
  "intervals (run [StartCountdown, StartGameplay] (GameEngine 0)) =
     [(1, CountdownCallback 3), (2, TimerCallback)]"
  by (simp add: GameEngine_def COUNTDOWN_START_def)

text \<open>
  C4, at the input where the code departs from it: the scenario of the specification.
  The countdown ticks are 3, 2 and 1, the third firing of the countdown starts the play
  with click count 0 and 10 seconds left. After 100 firings of the decrement schedule
  the engine is still Playing, with \<open>677 / 2^55\<close> seconds left, because each decrement is
  the binary64 value nearest to 0.1 and each difference is rounded; the 101st firing is
  the one that takes the engine to Finished.
\<close>

theorem scenario_ticks:
  "emitted (counting 2) =
     [StateChange COUNTDOWN, CountdownTick 3, CountdownTick 2, CountdownTick 1] \<and>
   state (counting 2) = COUNTDOWN \<and>
   filter is_CountdownTick (emitted (playing 0)) =
     [CountdownTick 3, CountdownTick 2, CountdownTick 1] \<and>
   state (playing 0) = PLAYING \<and> clickCount (playing 0) = 0 \<and> timeLeft (playing 0) = 10 \<and>
   state (playing 100) = PLAYING \<and> timeLeft (playing 100) = 677 / 36028797018963968 \<and>
   state (playing 101) = FINISHED \<and> timeLeft (playing 101) = 0"
proof -
  have "state (playing 100) = PLAYING \<and> timeLeft (playing 100) = 677 / 36028797018963968"
    by (subst (1 2) playing_100) (simp add: playing_0)
  moreover have "state (playing 101) = FINISHED \<and> timeLeft (playing 101) = 0"
    by (subst (1 2) playing_101_eq) simp
  ultimately show ?thesis
    by (simp add: counting_2 playing_0 subscribed_eq GameEngine_def DURATION_def)
qed

text \<open>
  C5, as amended. In every state reached from a new engine the time left is not negative,
  no timer update that was emitted carries a negative value, and the time left is positive
  while the engine is Playing. A firing of the decrement schedule while Playing either
  leaves a positive time left and the engine Playing, or, when the decrement reaches 0 or
  less, leaves the time left at exactly 0 and the engine Finished. An operation that takes
  the engine from Playing to Finished leaves the time left at exactly 0 and the field
  \<open>timerInterval\<close> at \<open>null\<close>, and the schedule the field named is cancelled. In a state
  reached without a call of \<open>startGameplay\<close> from outside, a decrement schedule is active
  only while Playing and is the one the field names, the time left drops to 0 by exactly
  the operations that take the engine from Playing to Finished, and no schedule is active
  once the engine is Finished: the clamp happens once in a round, at the transition.
\<close>

theorem timeLeft_never_negative:
  "0 \<le> timeLeft (run xs (GameEngine t)) \<and>
   list_all nonneg_update (emitted (run xs (GameEngine t))) \<and>
   (state (run xs (GameEngine t)) = PLAYING \<longrightarrow> 0 < timeLeft (run xs (GameEngine t))) \<and>
   (state (run xs (GameEngine t)) = PLAYING \<and>
    map_of (intervals (run xs (GameEngine t))) i = Some TimerCallback \<longrightarrow>
      (if js_sub (timeLeft (run xs (GameEngine t))) (js_div TIMER_INTERVAL 1000) \<le> 0
       then state (fire i (run xs (GameEngine t))) = FINISHED \<and>
            timeLeft (fire i (run xs (GameEngine t))) = 0
       else state (fire i (run xs (GameEngine t))) = PLAYING \<and>
            timeLeft (fire i (run xs (GameEngine t))) =
              js_sub (timeLeft (run xs (GameEngine t))) (js_div TIMER_INTERVAL 1000))) \<and>
   (state (run xs (GameEngine t)) = PLAYING \<and>
    state (step x (run xs (GameEngine t))) = FINISHED \<longrightarrow>
      timeLeft (step x (run xs (GameEngine t))) = 0 \<and>
      timerInterval (step x (run xs (GameEngine t))) = None \<and>
      (\<forall>j. timerInterval (run xs (GameEngine t)) = Some j \<longrightarrow>
         j \<notin> fst ` set (intervals (step x (run xs (GameEngine t)))) \<and>
         fire j (step x (run xs (GameEngine t))) = step x (run xs (GameEngine t)))) \<and>
   (StartGameplay \<notin> set xs \<longrightarrow>
      (\<forall>j. map_of (intervals (run xs (GameEngine t))) j = Some TimerCallback \<longrightarrow>
         state (run xs (GameEngine t)) = PLAYING \<and>
         timerInterval (run xs (GameEngine t)) = Some j) \<and>
      (timeLeft (step x (run xs (GameEngine t))) = 0 \<and> timeLeft (run xs (GameEngine t)) \<noteq> 0
         \<longleftrightarrow> state (run xs (GameEngine t)) = PLAYING \<and>
             state (step x (run xs (GameEngine t))) = FINISHED) \<and>
      (state (step x (run xs (GameEngine t))) = FINISHED \<longrightarrow>
         intervals (step x (run xs (GameEngine t))) = []))"
proof -
  let ?w = "run xs (GameEngine t)"
  have ok: "clock_ok ?w"
    by (simp add: clock_ok_run clock_ok_GameEngine)
  then have z: "timerInterval ?w \<noteq> Some 0"
    by (simp add: clock_ok_def)
  have a: "0 \<le> timeLeft ?w" "state ?w = PLAYING \<longrightarrow> 0 < timeLeft ?w"
    using ok by (simp_all add: clock_ok_def)
  have b: "list_all nonneg_update (emitted ?w)"
    by (rule nonneg_run) (simp add: GameEngine_def)
  have c: "if js_sub (timeLeft ?w) (js_div TIMER_INTERVAL 1000) \<le> 0
       then state (fire i ?w) = FINISHED \<and> timeLeft (fire i ?w) = 0
       else state (fire i ?w) = PLAYING \<and>
            timeLeft (fire i ?w) = js_sub (timeLeft ?w) (js_div TIMER_INTERVAL 1000)"
    if "state ?w = PLAYING" and "map_of (intervals ?w) i = Some TimerCallback"
    using that by (simp add: fire_timer)
  have fin: "timeLeft (step x ?w) = 0 \<and> timerInterval (step x ?w) = None \<and>
      (\<forall>j. timerInterval ?w = Some j \<longrightarrow>
         j \<notin> fst ` set (intervals (step x ?w)) \<and> fire j (step x ?w) = step x ?w)"
    if p: "state ?w = PLAYING" and f: "state (step x ?w) = FINISHED"
  proof (intro conjI allI impI)
    show "timeLeft (step x ?w) = 0"
      by (rule finishing_step(1) [OF p f])
    show "timerInterval (step x ?w) = None"
      by (rule finishing_step(2) [OF p f z])
    fix j
    assume j: "timerInterval ?w = Some j"
    then have "j \<noteq> 0" using z by auto
    then show "j \<notin> fst ` set (intervals (step x ?w))" "fire j (step x ?w) = step x ?w"
      using finishing_step(3, 4) [OF p f j] by blast+
  qed
  have d: "(\<forall>j. map_of (intervals ?w) j = Some TimerCallback \<longrightarrow>
         state ?w = PLAYING \<and> timerInterval ?w = Some j) \<and>
      (timeLeft (step x ?w) = 0 \<and> timeLeft ?w \<noteq> 0
         \<longleftrightarrow> state ?w = PLAYING \<and> state (step x ?w) = FINISHED) \<and>
      (state (step x ?w) = FINISHED \<longrightarrow> intervals (step x ?w) = [])"
    if life: "StartGameplay \<notin> set xs"
  proof -
    have s: "single_schedule ?w"
      using life by (auto intro: single_schedule_run single_schedule_GameEngine)
    have 1: "\<forall>j. map_of (intervals ?w) j = Some TimerCallback \<longrightarrow>
         state ?w = PLAYING \<and> timerInterval ?w = Some j"
      using timer_only_playing [OF s] by blast
    have 2: "timeLeft (step x ?w) = 0 \<and> timeLeft ?w \<noteq> 0
         \<longleftrightarrow> state ?w = PLAYING \<and> state (step x ?w) = FINISHED"
    proof
      assume "timeLeft (step x ?w) = 0 \<and> timeLeft ?w \<noteq> 0"
      then show "state ?w = PLAYING \<and> state (step x ?w) = FINISHED"
        using drop_to_zero [OF s] by blast
    next
      assume tr: "state ?w = PLAYING \<and> state (step x ?w) = FINISHED"
      then have "timeLeft (step x ?w) = 0" using fin by blast
      moreover have "timeLeft ?w \<noteq> 0" using a(2) tr by auto
      ultimately show "timeLeft (step x ?w) = 0 \<and> timeLeft ?w \<noteq> 0" by blast
    qed
    have 3: "intervals (step x ?w) = []" if f: "state (step x ?w) = FINISHED"
    proof -
      have "x \<noteq> StartGameplay" using f by auto
      then have "single_schedule (step x ?w)" using s by (rule single_schedule_step [rotated])
      then show ?thesis using f by (rule finished_no_schedule)
    qed
    show ?thesis using 1 2 3 by blast
  qed
  show ?thesis
    using a b c fin d by blast
qed

theorem timeLeft_never_negative_witness:
  "StartGameplay \<notin> set (scenario 100) \<and>
   state (playing 100) = PLAYING \<and>
   map_of (intervals (playing 100)) 2 = Some TimerCallback \<and>
   timerInterval (playing 100) = Some 2 \<and>
   0 < timeLeft (playing 100) \<and>
   list_all nonneg_update (emitted (playing 100)) \<and>
   js_sub (timeLeft (playing 100)) (js_div TIMER_INTERVAL 1000) \<le> 0 \<and>
   timeLeft (playing 100) \<noteq> 0 \<and>
   state (fire 2 (playing 100)) = FINISHED \<and>
   timeLeft (fire 2 (playing 100)) = 0 \<and>
   timerInterval (fire 2 (playing 100)) = None \<and>
   intervals (fire 2 (playing 100)) = [] \<and>
   fire 2 (fire 2 (playing 100)) = fire 2 (playing 100)"
proof -
  have l: "StartGameplay \<notin> set (scenario 100)"
    by (simp add: scenario_def)
  have p: "state (playing 100) = PLAYING"
    by (subst playing_100) (simp add: playing_0)
  have m: "map_of (intervals (playing 100)) 2 = Some TimerCallback"
    by (subst playing_100) (simp add: playing_0)
  have n: "js_sub (timeLeft (playing 100)) (js_div TIMER_INTERVAL 1000) \<le> 0"
    by (subst playing_100) (simp add: decay_101)
  show ?thesis
    using timeLeft_never_negative [of "scenario 100" 0 2 "Fire 2"] l p m n
    unfolding playing_run [symmetric] step.simps
    by (simp only: if_True simp_thms) blast
qed

text \<open>
  C5 as stated fails after two calls of \<open>startGameplay\<close>: \<open>endGame\<close> cancels the second
  decrement schedule only, and the first one goes on firing while the engine is Finished.
  Each of its firings takes the time left below 0 and clamps it to 0 again, and emits
  another timer update.
\<close>

theorem orphan_clamp_counterexample:
  "state (run [SetOnTimerUpdate True, StartGameplay, StartGameplay, EndGame] (GameEngine 0)) =
     FINISHED \<and>
   timeLeft (run [SetOnTimerUpdate True, StartGameplay, StartGameplay, EndGame] (GameEngine 0)) =
     0 \<and>
   intervals (run [SetOnTimerUpdate True, StartGameplay, StartGameplay, EndGame] (GameEngine 0)) =
     [(1, TimerCallback)] \<and>
   js_sub 0 (js_div TIMER_INTERVAL 1000) < 0 \<and>
   state (run [SetOnTimerUpdate True, StartGameplay, StartGameplay, EndGame, Fire 1]
            (GameEngine 0)) = FINISHED \<and>
   timeLeft (run [SetOnTimerUpdate True, StartGameplay, StartGameplay, EndGame, Fire 1]
               (GameEngine 0)) = 0 \<and>
   emitted (run [SetOnTimerUpdate True, StartGameplay, StartGameplay, EndGame, Fire 1]
              (GameEngine 0)) =
     emitted (run [SetOnTimerUpdate True, StartGameplay, StartGameplay, EndGame]
                (GameEngine 0)) @
     [TimerUpdate 0 Danger]"
proof -
  have s: "js_sub 0 (3602879701896397 / 36028797018963968) =
      - (3602879701896397 / 36028797018963968)"
    by (simp add: fl_eval)
  show ?thesis
    by (simp add: GameEngine_def fire_def timerTick_emitted endGame_emitted
        startGameplay_emitted timer_step s)
qed

text \<open>
  C6. While the engine is not Playing, \<open>registerClick\<close> returns the click count and
  changes nothing. In a Playing phase, from its start by \<open>startGameplay\<close> with no countdown
  schedule active, through any operations other than \<open>startCountdown\<close>, \<open>startGameplay\<close> and
  \<open>reset\<close>, the click count is the number of \<open>registerClick\<close> calls made while Playing, at
  every moment and so at Finished.
\<close>

theorem clicks_counted:
  "(state w \<noteq> PLAYING \<longrightarrow> registerClick w = (clickCount w, w)) \<and>
   (no_countdown w \<and> (\<forall>x\<in>set xs. in_phase x) \<longrightarrow>
      clickCount (run xs (startGameplay w)) = int (accepted xs (startGameplay w)))"
proof -
  have "clickCount (run xs (startGameplay w)) = int (accepted xs (startGameplay w))"
    if n: "no_countdown w" and p: "\<forall>x\<in>set xs. in_phase x"
  proof -
    have "no_countdown (startGameplay w)"
      using n by (simp add: no_countdown_def)
    then show ?thesis
      using phase_run [of "startGameplay w" xs] p by simp
  qed
  then show ?thesis
    by (auto simp: registerClick_def)
qed

theorem clicks_counted_witness:
  "state (GameEngine 0) \<noteq> PLAYING \<and>
   registerClick (GameEngine 0) = (clickCount (GameEngine 0), GameEngine 0) \<and>
   no_countdown (GameEngine 0) \<and>
   list_all in_phase
     [RegisterClick, Fire 1, RegisterClick, RegisterClick, EndGame, RegisterClick] \<and>
   state (run [RegisterClick, Fire 1, RegisterClick, RegisterClick, EndGame, RegisterClick]
            (startGameplay (GameEngine 0))) = FINISHED \<and>
   clickCount (run [RegisterClick, Fire 1, RegisterClick, RegisterClick, EndGame, RegisterClick]
                 (startGameplay (GameEngine 0))) = 3"
proof -
  have s: "js_sub 10 (3602879701896397 / 36028797018963968) = 5573204538870989 / 562949953421312"
    by (simp add: fl_eval)
  show ?thesis
    using clicks_counted [of "GameEngine 0"
        "[RegisterClick, Fire 1, RegisterClick, RegisterClick, EndGame, RegisterClick]"]
    by (simp add: GameEngine_def no_countdown_def fire_def DURATION_def timer_step s)
qed

text \<open>
  C7, as amended. \<open>reset\<close> takes every engine to Idle with click count 0 and the full
  duration on the clock. When every active schedule is the one that \<open>timerInterval\<close> or
  \<open>countdownInterval\<close> names, as it is in every state reached without a call of
  \<open>startGameplay\<close> from outside, \<open>reset\<close> leaves no schedule active, and no event is emitted
  while time passes after it.
\<close>

theorem reset_to_idle:
  "state (reset w) = IDLE \<and> clickCount (reset w) = 0 \<and> timeLeft (reset w) = DURATION \<and>
   (tracked w \<longrightarrow>
      intervals (reset w) = [] \<and>
      (\<forall>xs. (\<forall>x\<in>set xs. is_time x) \<longrightarrow> emitted (run xs (reset w)) = emitted (reset w)))"
  using tracked_reset [of w] quiet_time_run [of "reset w"] by simp

theorem reset_to_idle_witness:
  "tracked (counting 0) \<and> state (counting 0) = COUNTDOWN \<and>
   intervals (counting 0) = [(1, CountdownCallback 3)] \<and>
   state (reset (counting 0)) = IDLE \<and> clickCount (reset (counting 0)) = 0 \<and>
   timeLeft (reset (counting 0)) = 10 \<and> intervals (reset (counting 0)) = [] \<and>
   list_all is_time [Wait 1000, Fire 1, Wait 1000, Fire 1, Fire 2] \<and>
   emitted (run [Wait 1000, Fire 1, Wait 1000, Fire 1, Fire 2] (reset (counting 0))) =
     emitted (reset (counting 0))"
proof -
  have t: "tracked (counting 0)"
    by (simp add: counting_0 tracked_def)
  have q: "\<forall>x\<in>set [Wait 1000, Fire 1, Wait 1000, Fire 1, Fire 2]. is_time x"
    by simp
  have c: "state (counting 0) = COUNTDOWN" "intervals (counting 0) = [(1, CountdownCallback 3)]"
    by (simp_all add: counting_0)
  have r: "state (reset (counting 0)) = IDLE \<and> clickCount (reset (counting 0)) = 0 \<and>
      timeLeft (reset (counting 0)) = 10 \<and> intervals (reset (counting 0)) = [] \<and>
      (\<forall>xs. (\<forall>x\<in>set xs. is_time x) \<longrightarrow>
         emitted (run xs (reset (counting 0))) = emitted (reset (counting 0)))"
    using reset_to_idle [of "counting 0"] t by (simp add: DURATION_def)
  then have "emitted (run [Wait 1000, Fire 1, Wait 1000, Fire 1, Fire 2] (reset (counting 0))) =
      emitted (reset (counting 0))"
    using q by blast
  then show ?thesis
    using t c r by simp
qed

text \<open>
  C7 as stated fails in a Playing state reached by calling \<open>startGameplay\<close> twice: the
  second call overwrites \<open>timerInterval\<close>, the first schedule is named by no field any
  more, \<open>reset\<close> does not clear it, and it goes on emitting timer updates in Idle.
\<close>

theorem reset_orphan_counterexample:
  "state (run [SetOnTimerUpdate True, StartGameplay, StartGameplay] (GameEngine 0)) = PLAYING \<and>
   state (run [SetOnTimerUpdate True, StartGameplay, StartGameplay, Reset] (GameEngine 0)) = IDLE \<and>
   intervals (run [SetOnTimerUpdate True, StartGameplay, StartGameplay, Reset] (GameEngine 0)) =
     [(1, TimerCallback)] \<and>
   emitted (run [SetOnTimerUpdate True, StartGameplay, StartGameplay, Reset, Fire 1]
              (GameEngine 0)) =
     emitted (run [SetOnTimerUpdate True, StartGameplay, StartGameplay, Reset] (GameEngine 0)) @
     [TimerUpdate (5573204538870989 / 562949953421312) Normal]"
proof -
  have s: "js_sub 10 (3602879701896397 / 36028797018963968) = 5573204538870989 / 562949953421312"
    by (simp add: fl_eval)
  show ?thesis
    by (simp add: GameEngine_def fire_def timerTick_emitted reset_emitted startGameplay_emitted
        DURATION_def timer_step s getTimerStatus_def DANGER_THRESHOLD_def WARNING_THRESHOLD_def)
qed

text \<open>
  C10. \<open>startGameplay\<close> checks nothing: from every engine state it sets the state to
  Playing, the click count to 0, the time left to the full duration and the start time
  to the current clock value, and it adds a new decrement schedule, named by
  \<open>timerInterval\<close>, while every schedule that was active before stays active.
\<close>

theorem startGameplay_unconditional:
  "state (startGameplay w) = PLAYING \<and>
   clickCount (startGameplay w) = 0 \<and>
   timeLeft (startGameplay w) = DURATION \<and>
   gameStartTime (startGameplay w) = Some (now w) \<and>
   intervals (startGameplay w) = intervals w @ [(nextId w, TimerCallback)] \<and>
   timerInterval (startGameplay w) = Some (nextId w) \<and>
   countdownInterval (startGameplay w) = countdownInterval w"
  by simp

section \<open>Properties of the score submission\<close>

subsection \<open>Integers up to \<open>2^53\<close> are binary64 values\<close>









subsection \<open>The claims on the submission\<close>

text \<open>
  C8, as amended. For a score below 1 or above 1000, \<open>Web3Service.submitScore\<close> returns a
  failure and changes nothing: it makes no network call and leaves the local statistics
  alone. The error is the validation message when a contract is available and the
  service is not in demo mode; otherwise it is the message of the check that comes first
  in the code, that no contract is available. With a contract available,
  \<open>App._submitScore\<close> makes no network call either and leaves the local statistics alone.
\<close>

theorem out_of_range_rejected:
  assumes "n < MIN_SCORE \<or> n > MAX_SCORE"
  shows "success (fst (submitScore l n a)) = False \<and>
         snd (submitScore l n a) = a \<and>
         error (fst (submitScore l n a)) =
           Some (if isDemoMode a \<or> \<not> contract a
                 then ''Contract not available. Running in demo mode.''
                 else invalidScoreMessage) \<and>
         (\<not> isDemoMode a \<and> contract a \<longrightarrow>
            network (submitScoreApp l n a) = network a \<and>
            localStorage (submitScoreApp l n a) = localStorage a)"
  using assms by (auto simp: submitScore_def submitScoreApp_def ui_do_def)

theorem out_of_range_rejected_witness:
  "(1001 < MIN_SCORE \<or> 1001 > MAX_SCORE) \<and>
   \<not> isDemoMode (newService\<lparr>contract := True\<rparr>) \<and> contract (newService\<lparr>contract := True\<rparr>) \<and>
   success (fst (submitScore acceptingLedger 1001 (newService\<lparr>contract := True\<rparr>))) = False \<and>
   snd (submitScore acceptingLedger 1001 (newService\<lparr>contract := True\<rparr>)) =
     newService\<lparr>contract := True\<rparr> \<and>
   error (fst (submitScore acceptingLedger 1001 (newService\<lparr>contract := True\<rparr>))) =
     Some ''Invalid score. Must be between 1 and 1000'' \<and>
   network (submitScoreApp acceptingLedger 1001 (newService\<lparr>contract := True\<rparr>)) = [] \<and>
   localStorage (submitScoreApp acceptingLedger 1001 (newService\<lparr>contract := True\<rparr>)) = Absent"
  using out_of_range_rejected [of 1001 acceptingLedger "newService\<lparr>contract := True\<rparr>"]
  by (simp add: MIN_SCORE_def MAX_SCORE_def newService_def invalidScoreMessage_def)

text \<open>
  C8 as stated fails when no contract is available: the score 1001 submitted to a
  service that was never connected is rejected with the message that no contract is
  available, which is not the validation message.
\<close>

theorem out_of_range_demo_counterexample:
  "error (fst (submitScore acceptingLedger 1001 newService)) =
     Some ''Contract not available. Running in demo mode.'' \<and>
   error (fst (submitScore acceptingLedger 1001 newService)) \<noteq> Some invalidScoreMessage"
  by (simp add: submitScore_def newService_def invalidScoreMessage_def)




end
